theory Spec2Isabelle
  imports Main "HOL-Library.Sublist"
begin

section \<open>Data model\<close>

text \<open>
  The development embeds the latest revision of \<^verbatim>\<open>src/main.ts\<close> (the one with
  \<^verbatim>\<open>reportConflicts\<close>, the text the line numbers 514 and up belong to) and
  \<^verbatim>\<open>checkPushEventEnv\<close> of \<^verbatim>\<open>github-events.ts\<close>.

  A string is the list of the bytes of its UTF-8 encoding: a character of the Basic Latin
  block is one byte, the line separator U+2028 is the three bytes E2 80 A8. The encoding
  of a character occurs in the encoding of a well-formed string only where the character
  occurs in the string, so that comparing, concatenating and searching strings is
  comparing, concatenating and searching their bytes.

  An \<^verbatim>\<open>Octokit\<close> object is modelled by its identity: the run creates one client
  with \<^verbatim>\<open>new Octokit()\<close> and at most one more from the personal access token, so
  \<^verbatim>\<open>===\<close> on clients is equality here.
\<close>

datatype octokit = ActionsOctokit | PATOctokit string

text \<open>
  A thrown value: a plain \<^verbatim>\<open>Error\<close> with its message, a
  \<^verbatim>\<open>TypeError\<close>, the client library's \<^verbatim>\<open>RequestError\<close> with its
  status and message, an error of any other class with the name of the class and the
  message, or a value that is not an \<^verbatim>\<open>Error\<close>, with the string it converts to.
\<close>

datatype error =
    Error string
  | TypeError string
  | RequestError nat string
  | OtherError string string
  | Thrown string

record pull =
  number :: nat
  head_ref :: string
  base_ref :: string
  html_url :: string
  labels :: "string list"

record PRUpdate =
  sourceBranch :: string
  targetBranch :: string
  headBranch :: string
  baseBranch :: string
  url :: string

record ConflictSummary =
  sourceConflict :: bool
  targetConflict :: bool

record EventContext =
  owner :: string
  repo :: string
  pushedBranch :: string
  useIntermediateBranch :: bool
  sourceBranchPattern :: string
  targetBranchPattern :: string
  prTitleTemplate :: string
  prBodyTemplate :: string
  sourceConflictLabel :: string
  targetConflictLabel :: string
  actionsOctokit :: octokit
  prOctokit :: octokit

record templateContext =
  source_pattern :: string
  original_source :: string
  source :: string
  target :: string
  use_intermediate_branch :: bool

record PushEvent =
  after :: string
  ref :: string
  repository_name :: string
  repository_owner_login :: string

section \<open>Text\<close>

text \<open>
  A number inside a template literal: its decimal digits. \<open>digit\<close> is the character of
  a digit below sixteen (a decimal digit is below ten, a hexadecimal one below sixteen).
\<close>

definition digit :: "nat \<Rightarrow> char" where
  "digit d = ''0123456789abcdef'' ! d"

function show_nat :: "nat \<Rightarrow> string" where
  "show_nat n = (if n < 10 then [digit n] else show_nat (n div 10) @ [digit (n mod 10)])"
  by pat_completeness auto
termination
  by (relation "measure id") auto

declare show_nat.simps [simp del]

text \<open>
  \<^verbatim>\<open>Error.prototype.toString\<close>: the name alone when the message is empty, the message
  alone when the name is empty, otherwise the name, a colon and a space, and the message.
  \<open>error_toString\<close> is the text that \<^verbatim>\<open>core.warning(err)\<close> and
  \<^verbatim>\<open>core.setFailed(err)\<close> log for an error, and that the template literal gives for
  any other value. The name of a \<^verbatim>\<open>RequestError\<close> is \<^verbatim>\<open>HttpError\<close>.
\<close>

definition nameAndMessage :: "string \<Rightarrow> string \<Rightarrow> string" where
  "nameAndMessage name msg =
     (if name = [] then msg else if msg = [] then name else name @ '': '' @ msg)"

fun error_toString :: "error \<Rightarrow> string" where
  "error_toString (Error m) = nameAndMessage ''Error'' m"
| "error_toString (TypeError m) = nameAndMessage ''TypeError'' m"
| "error_toString (RequestError st m) = nameAndMessage ''HttpError'' m"
| "error_toString (OtherError name m) = nameAndMessage name m"
| "error_toString (Thrown s) = s"

fun join :: "string \<Rightarrow> string list \<Rightarrow> string" where
  "join sep [] = []"
| "join sep [x] = x"
| "join sep (x # y # ys) = x @ sep @ join sep (y # ys)"

text \<open>
  \<^verbatim>\<open>JSON.stringify\<close> of a string: quotes around it, the quote and the backslash
  escaped, control characters written as their short escapes or as \<^verbatim>\<open>\u00XX\<close>.
\<close>

definition JSON_escape :: "char \<Rightarrow> string" where
  "JSON_escape c =
     (if c = CHR 0x22 then [CHR 0x5C, CHR 0x22]
      else if c = CHR 0x5C then [CHR 0x5C, CHR 0x5C]
      else if c = CHR 0x08 then [CHR 0x5C, CHR ''b'']
      else if c = CHR 0x0C then [CHR 0x5C, CHR ''f'']
      else if c = CHR 0x0A then [CHR 0x5C, CHR ''n'']
      else if c = CHR 0x0D then [CHR 0x5C, CHR ''r'']
      else if c = CHR 0x09 then [CHR 0x5C, CHR ''t'']
      else if of_char c < (32::nat)
        then [CHR 0x5C, CHR ''u'', CHR ''0'', CHR ''0'',
              digit (of_char c div 16), digit (of_char c mod 16)]
      else [c])"

definition JSON_stringify_string :: "string \<Rightarrow> string" where
  "JSON_stringify_string s = [CHR 0x22] @ concat (map JSON_escape s) @ [CHR 0x22]"

definition JSON_stringify_strings :: "string list \<Rightarrow> string" where
  "JSON_stringify_strings xs = ''['' @ join '','' (map JSON_stringify_string xs) @ '']''"

section \<open>The remote platform and the process\<close>

text \<open>
  Every request of the program to the platform is recorded, with the answer the platform
  gives to it, as one \<open>exchange\<close>. All requests are addressed to the \<^verbatim>\<open>owner\<close>
  and \<^verbatim>\<open>repo\<close> of the context, which the exchanges do not repeat. The two kinds
  of request that are sent through \<^verbatim>\<open>prOctokit\<close> record the client that sent
  them; all the others go through \<^verbatim>\<open>actionsOctokit\<close>.
\<close>

datatype pr_state = Closed | Open

datatype exchange =
    GetBranch string "error + string"
  | CreateRef string string "error + string"
  | Merge string string "error + nat"
  | ListBranches "error + string list"
  | ListPulls string string "error + pull list"
  | CreatePull octokit string string string string "error + pull"
  | UpdatePull octokit nat pr_state "error + unit"
  | CreateComment nat string "error + unit"
  | AddLabels nat "string list" "error + unit"
  | RemoveLabel nat string "error + unit"

text \<open>
  The platform is outside the program. It is a parameter of the model: for each kind of
  request a function that, from the exchanges so far and the arguments of the request,
  gives either the value thrown (\<open>Inl\<close>) or the data returned (\<open>Inr\<close>): the commit
  sha of a branch, the sha of a new ref, the status of a merge, the names of the
  branches, pull requests. The platform answers a request from the requests made before
  it, in the order in which the program makes them. The libraries
  \<^verbatim>\<open>minimatch\<close> and \<^verbatim>\<open>mustache\<close>, the inputs of the action and the
  environment of the process are parameters too. \<open>INPUT name\<close> is the value of the
  environment variable of the input \<open>name\<close> (the empty string for an input that is not
  set), \<open>readEvent path\<close> what reading, parsing and decoding the event file gives,
  \<open>JSON_stringify_pull\<close> the JSON text of a created pull request (an object with many
  more fields than the program reads).
\<close>

record env =
  repos_getBranch :: "exchange list \<Rightarrow> string \<Rightarrow> error + string"
  git_createRef :: "exchange list \<Rightarrow> string \<Rightarrow> string \<Rightarrow> error + string"
  repos_merge :: "exchange list \<Rightarrow> string \<Rightarrow> string \<Rightarrow> error + nat"
  repos_listBranches :: "exchange list \<Rightarrow> error + string list"
  pulls_list :: "exchange list \<Rightarrow> string \<Rightarrow> string \<Rightarrow> error + pull list"
  pulls_create ::
    "exchange list \<Rightarrow> octokit \<Rightarrow> string \<Rightarrow> string \<Rightarrow> string \<Rightarrow> string \<Rightarrow> error + pull"
  pulls_update :: "exchange list \<Rightarrow> octokit \<Rightarrow> nat \<Rightarrow> pr_state \<Rightarrow> error + unit"
  issues_createComment :: "exchange list \<Rightarrow> nat \<Rightarrow> string \<Rightarrow> error + unit"
  issues_addLabels :: "exchange list \<Rightarrow> nat \<Rightarrow> string list \<Rightarrow> error + unit"
  issues_removeLabel :: "exchange list \<Rightarrow> nat \<Rightarrow> string \<Rightarrow> error + unit"
  minimatch :: "string \<Rightarrow> string \<Rightarrow> bool"
  Mustache_render :: "string \<Rightarrow> templateContext \<Rightarrow> error + string"
  JSON_stringify_pull :: "pull \<Rightarrow> string"
  INPUT :: "string \<Rightarrow> string"
  GITHUB_EVENT_NAME :: "string option"
  GITHUB_EVENT_PATH :: "string option"
  GITHUB_REPOSITORY :: "string option"
  readEvent :: "string \<Rightarrow> error + PushEvent"

datatype log_entry = Debug string | Info string | Warning string | LogError string

text \<open>
  \<^verbatim>\<open>applyLabel\<close> and \<^verbatim>\<open>removeLabel\<close> are called without
  \<^verbatim>\<open>await\<close>. Such a call runs the body of the function up to its first
  \<^verbatim>\<open>await\<close>, where the request is made, and returns; the rest of the body, from
  the answer on, runs later, while the caller waits at an \<^verbatim>\<open>await\<close> of its own
  or after the caller is done. A \<open>task\<close> is such a rest: the label and the answer of
  the platform that it is waiting for. \<open>resumed\<close> is what the rest of the body logs:
  the line after the request when the request succeeded, the two warnings of the
  \<^verbatim>\<open>catch\<close> block when it threw.
\<close>

datatype task =
    ApplyingLabel string "error + unit"
  | RemovingLabel string "error + unit"

fun resumed :: "task \<Rightarrow> log_entry list" where
  "resumed (ApplyingLabel label (Inr u)) = [Debug (''Applied label: '' @ label)]"
| "resumed (ApplyingLabel label (Inl err)) =
     [Warning ''Failed to apply label'', Warning (error_toString err)]"
| "resumed (RemovingLabel label (Inr u)) = [Debug (''Removed label: '' @ label)]"
| "resumed (RemovingLabel label (Inl err)) =
     [Warning ''Failed to remove label'', Warning (error_toString err)]"

text \<open>
  What the program leaves behind: the exchanges with the platform, oldest first, the
  lines it logged, whether \<^verbatim>\<open>core.setFailed\<close> was called, and the outputs set.
  And what is still to come: \<open>pending\<close>, the tasks that wait for their answer, oldest
  first, and \<open>arrivals\<close>, which the program has no hand in: \<open>arrivals w 0\<close> lists the
  positions in \<open>pending\<close> of the tasks whose answer arrives during the next
  \<^verbatim>\<open>await\<close>, \<open>arrivals w 1\<close> those of the \<^verbatim>\<open>await\<close> after it, and so on.
  A position is counted after the tasks before it in the list have left \<open>pending\<close>.
\<close>

record world =
  calls :: "exchange list"
  logs :: "log_entry list"
  failed :: bool
  outputs :: "(string \<times> PRUpdate list) list"
  pending :: "task list"
  arrivals :: "nat \<Rightarrow> nat list"

section \<open>Asynchronous functions as programs over the world\<close>

text \<open>
  An \<^verbatim>\<open>async\<close> function is a function from the world to its outcome (\<open>Inl\<close> the
  value thrown, \<open>Inr\<close> the value returned) and the world after it. \<open>bnd\<close> is
  sequencing with the value of the first part, \<open>catch\<close> is
  \<^verbatim>\<open>try { ... } catch (err) { ... }\<close>.
\<close>

type_synonym 'a prog = "world \<Rightarrow> (error + 'a) \<times> world"

definition ret :: "'a \<Rightarrow> 'a prog" where
  "ret x w = (Inr x, w)"

definition raise :: "error \<Rightarrow> 'a prog" where
  "raise e w = (Inl e, w)"

definition bnd :: "'a prog \<Rightarrow> ('a \<Rightarrow> 'b prog) \<Rightarrow> 'b prog" where
  "bnd m f w = (case m w of (Inl e, w') \<Rightarrow> (Inl e, w') | (Inr x, w') \<Rightarrow> f x w')"

definition seq :: "'a prog \<Rightarrow> 'b prog \<Rightarrow> 'b prog" where
  "seq m n = bnd m (\<lambda>_. n)"

definition catch :: "'a prog \<Rightarrow> (error \<Rightarrow> 'a prog) \<Rightarrow> 'a prog" where
  "catch m h w = (case m w of (Inl e, w') \<Rightarrow> h e w' | (Inr x, w') \<Rightarrow> (Inr x, w'))"

definition logm :: "log_entry \<Rightarrow> unit prog" where
  "logm l w = (Inr (), w\<lparr>logs := logs w @ [l]\<rparr>)"

definition lift :: "error + 'a \<Rightarrow> 'a prog" where
  "lift r w = (r, w)"

text \<open>\<^verbatim>\<open>core.setFailed\<close> sets the exit code of the process and logs the message as an error.\<close>

definition setFailed :: "string \<Rightarrow> unit prog" where
  "setFailed msg w = (Inr (), w\<lparr>logs := logs w @ [LogError msg], failed := True\<rparr>)"

definition setOutput :: "string \<Rightarrow> PRUpdate list \<Rightarrow> unit prog" where
  "setOutput name v w = (Inr (), w\<lparr>outputs := outputs w @ [(name, v)]\<rparr>)"

text \<open>
  \<open>resume is ts\<close> lets the tasks at the positions \<open>is\<close> of \<open>ts\<close> run, one after the
  other, and gives the lines they log and the tasks that are left; a position beyond the
  end of the list is skipped. \<open>yield\<close> is what happens while the program waits at an
  \<^verbatim>\<open>await\<close>: the tasks whose answer arrives run. \<open>await m\<close> is
  \<^verbatim>\<open>await\<close> applied to the call of an asynchronous function: the function runs,
  then the caller waits for its promise, whether it is fulfilled or rejected.
\<close>

primrec resume :: "nat list \<Rightarrow> task list \<Rightarrow> log_entry list \<times> task list" where
  "resume [] ts = ([], ts)"
| "resume (i # is) ts =
     (if i < length ts
      then (case resume is (take i ts @ drop (Suc i) ts) of
              (l, rest) \<Rightarrow> (resumed (ts ! i) @ l, rest))
      else resume is ts)"

definition yield :: "world \<Rightarrow> world" where
  "yield w =
     (case resume (arrivals w 0) (pending w) of
        (l, rest) \<Rightarrow>
          w\<lparr>logs := logs w @ l, pending := rest, arrivals := \<lambda>n. arrivals w (Suc n)\<rparr>)"

definition await :: "'a prog \<Rightarrow> 'a prog" where
  "await m w = (case m w of (r, w') \<Rightarrow> (r, yield w'))"

text \<open>
  \<open>send\<close> makes a request: the exchange is recorded and the value is the promise of
  the client library, which is modelled by the answer it will settle with. \<open>call\<close> is
  \<^verbatim>\<open>await\<close> applied to a request. \<open>suspend\<close> is the \<^verbatim>\<open>await\<close> inside a
  function that was called without \<^verbatim>\<open>await\<close>: the rest of its body joins the
  pending tasks and the caller goes on.
\<close>

definition send ::
  "(exchange list \<Rightarrow> error + 'a) \<Rightarrow> (error + 'a \<Rightarrow> exchange) \<Rightarrow> (error + 'a) prog" where
  "send answer record_as w =
     (let r = answer (calls w) in (Inr r, w\<lparr>calls := calls w @ [record_as r]\<rparr>))"

definition call :: "(exchange list \<Rightarrow> error + 'a) \<Rightarrow> (error + 'a \<Rightarrow> exchange) \<Rightarrow> 'a prog" where
  "call answer record_as = bnd (send answer record_as) (\<lambda>promise. await (lift promise))"

definition suspend :: "task \<Rightarrow> unit prog" where
  "suspend t w = (Inr (), w\<lparr>pending := pending w @ [t]\<rparr>)"

text \<open>
  The pause of \<^verbatim>\<open>kickCI\<close>,
  \<^verbatim>\<open>await new Promise(resolve => setTimeout(resolve, 5_000))\<close>: an
  \<^verbatim>\<open>await\<close> during which nothing happens but the arrival of answers. Time is not
  modelled.
\<close>

definition sleep :: "unit prog" where
  "sleep = await (ret ())"

text \<open>
  The process ends when nothing is pending any more: after the program is done, the
  answers that are still to come arrive, first those that \<open>arrivals\<close> names, then the
  others in the order of their requests.
\<close>

definition drain :: "world \<Rightarrow> world" where
  "drain w =
     (yield w)\<lparr>logs := logs (yield w) @ concat (map resumed (pending (yield w))),
       pending := []\<rparr>"

section \<open>Branches\<close>

text \<open>
  \<^verbatim>\<open>ref.match(/^refs\/heads\/(?<branch>.*)$/)?.groups?.branch ?? null\<close>. The
  pattern has no flags: \<^verbatim>\<open>^\<close> and \<^verbatim>\<open>$\<close> are the two ends of the whole
  string, and \<^verbatim>\<open>.\<close> matches any character but the four line terminators: line
  feed, carriage return, line separator (U+2028) and paragraph separator (U+2029). So
  the match succeeds when the string starts with the eleven characters of the prefix and
  no line terminator occurs after them, and the group is the rest. An empty group is the
  empty string, which \<^verbatim>\<open>??\<close> keeps.
\<close>

definition lineTerminators :: "string list" where
  "lineTerminators =
     [ [CHR 0x0A], [CHR 0x0D], [CHR 0xE2, CHR 0x80, CHR 0xA8], [CHR 0xE2, CHR 0x80, CHR 0xA9] ]"

definition refAsBranch :: "string \<Rightarrow> string option" where
  "refAsBranch r =
     (if take 11 r = ''refs/heads/'' \<and> \<not> list_ex (\<lambda>t. sublist t (drop 11 r)) lineTerminators
      then Some (drop 11 r) else None)"

definition branchAsRef :: "string \<Rightarrow> string" where
  "branchAsRef r = ''refs/heads/'' @ r"

text \<open>Fetches the given branch from the remote. Throws if not found.\<close>

definition getBranch :: "env \<Rightarrow> EventContext \<Rightarrow> string \<Rightarrow> string prog" where
  "getBranch env ctx branch =
     catch (call (\<lambda>h. repos_getBranch env h branch) (GetBranch branch))
       (\<lambda>_. raise (Error (''Could not find target branch: '' @ branch)))"

text \<open>
  Checks to see if a branch exists, and if it doesn't, creates that branch. Returns true
  if a branch was created.
\<close>

definition createBranch :: "env \<Rightarrow> EventContext \<Rightarrow> string \<Rightarrow> string \<Rightarrow> bool prog" where
  "createBranch env ctx branch sha =
     catch
       (bnd (call (\<lambda>h. repos_getBranch env h branch) (GetBranch branch)) (\<lambda>found.
        seq (logm (Info (''Found branch '' @ branch @ '' at '' @ found)))
        (ret False)))
       (\<lambda>_.
        seq (logm (Debug (''Branch '' @ branch @ '' not found. Will try to create it.'')))
        (catch
          (bnd (call (\<lambda>h. git_createRef env h (branchAsRef branch) sha)
                  (CreateRef (branchAsRef branch) sha)) (\<lambda>new.
           seq (logm (Info (''Created branch '' @ branch @ '' at '' @ new)))
           (ret True)))
          (\<lambda>_. raise (Error (''Failed to create branch: '' @ branch)))))"

text \<open>
  Merges \<open>head\<close> into \<open>base\<close>. The request throws when the platform refuses it; a
  status that comes back is 201 for a new merge commit and 204 when there was nothing to
  merge.
\<close>

definition merge :: "env \<Rightarrow> EventContext \<Rightarrow> string \<Rightarrow> string \<Rightarrow> bool prog" where
  "merge env ctx base head =
     seq (logm (Debug (''Will attempt to merge '' @ head @ '' into '' @ base)))
     (bnd (call (\<lambda>h. repos_merge env h base head) (Merge base head)) (\<lambda>status.
      if status = 201
        then seq (logm (Info (''Merged '' @ head @ '' into '' @ base))) (ret True)
      else if status = 204
        then seq (logm (Info (head @ '' is already merged to '' @ base))) (ret False)
      else seq (logm (LogError (''Unknown return status ('' @ show_nat status @
                  ''). Assuming we don't need to kick CI.''))) (ret False)))"

section \<open>Comments and labels\<close>

text \<open>
  What \<^verbatim>\<open>Mustache.render\<close> makes of the fixed template of the report: the line
  of a section tag that stands alone disappears, the line between the two tags is
  repeated for every note, and the triple braces insert the note as it is.
\<close>

definition commentReport :: "string list \<Rightarrow> string" where
  "commentReport notes =
     [CHR 0x0A] @ ''`sync-branches` Action reports the following:'' @ [CHR 0x0A, CHR 0x0A] @
     concat (map (\<lambda>note. ''- '' @ note @ [CHR 0x0A]) notes)"

text \<open>
  Given a list of notes, constructs a comment containing a list of those notes. If the
  comment fails to post, this function does not throw. It only logs.
\<close>

definition comment :: "env \<Rightarrow> EventContext \<Rightarrow> nat \<Rightarrow> string list \<Rightarrow> unit prog" where
  "comment env ctx pull_number notes =
     (if notes = [] then logm (Debug ''Skip commenting. Nothing to do.'')
      else
        let body = commentReport notes in
        seq (logm (Debug (''Constructed comment from '' @ JSON_stringify_strings notes @
                    '': '' @ body)))
        (catch
          (seq (logm (Debug ''Posting comment''))
          (seq (call (\<lambda>h. issues_createComment env h pull_number body)
                  (CreateComment pull_number body))
          (logm (Debug ''Posted comment''))))
          (\<lambda>err.
            seq (logm (Warning ''Failed to create comment''))
            (logm (Warning (error_toString err))))))"

text \<open>
  Applies the given label to the PR. If the label fails to apply, it only logs. The
  function is only ever called without \<^verbatim>\<open>await\<close>: this is its body up to the
  \<^verbatim>\<open>await\<close> of the request, and \<open>resumed\<close> has the rest.
\<close>

definition applyLabel :: "env \<Rightarrow> EventContext \<Rightarrow> pull \<Rightarrow> string \<Rightarrow> unit prog" where
  "applyLabel env ctx pr label =
     (if label = [] then logm (Debug ''Empty label. Skipping application'')
      else if label \<in> set (labels pr)
        then logm (Debug (''Already have label '' @ [CHR 0x22] @ label @ [CHR 0x22] @
                    ''. Skipping application''))
      else
        seq (logm (Debug (''Applying label: '' @ label)))
        (bnd (send (\<lambda>h. issues_addLabels env h (number pr) [label])
                (AddLabels (number pr) [label])) (\<lambda>promise.
         suspend (ApplyingLabel label promise))))"

text \<open>
  Removes the given label from the PR. If the label fails to remove, it only logs. Like
  \<open>applyLabel\<close>, this is the body up to the \<^verbatim>\<open>await\<close> of the request.
\<close>

definition removeLabel :: "env \<Rightarrow> EventContext \<Rightarrow> pull \<Rightarrow> string \<Rightarrow> unit prog" where
  "removeLabel env ctx pr label =
     (if label = [] then logm (Debug ''Empty label. Skipping removal'')
      else if label \<notin> set (labels pr)
        then logm (Debug (''Already missing label '' @ [CHR 0x22] @ label @ [CHR 0x22] @
                    ''. Skipping removal''))
      else
        seq (logm (Debug (''Removing label: '' @ label)))
        (bnd (send (\<lambda>h. issues_removeLabel env h (number pr) label)
                (RemoveLabel (number pr) label)) (\<lambda>promise.
         suspend (RemovingLabel label promise))))"

primrec warnAll :: "string list \<Rightarrow> unit prog" where
  "warnAll [] = ret ()"
| "warnAll (note # notes) = seq (logm (Warning note)) (warnAll notes)"

definition sourceNote :: "string \<Rightarrow> string \<Rightarrow> string" where
  "sourceNote sourceBr intermediateBr =
     ''Failed to merge `'' @ sourceBr @ ''` into `'' @ intermediateBr @
     ''`. Possibly a conflict? It may help to delete branch `'' @ intermediateBr @
     ''` and re-run your `sync-branches` job in order to start fresh.''"

definition targetNote :: "string \<Rightarrow> string \<Rightarrow> string" where
  "targetNote targetBr intermediateBr =
     ''Failed to merge `'' @ targetBr @ ''` into `'' @ intermediateBr @
     ''`. Possibly a conflict? Check the status of this PR below.''"

text \<open>
  Adds labels and comments describing merge conflicts to a PR. The calls of
  \<^verbatim>\<open>applyLabel\<close> and \<^verbatim>\<open>removeLabel\<close> have no \<^verbatim>\<open>await\<close>: each
  makes its request and leaves a task behind, and the function goes on to warn about
  the notes and to post the comment, which it waits for. The two local definitions are
  the two notes that the source pushes on \<^verbatim>\<open>notes\<close>.
\<close>

definition reportConflicts ::
  "env \<Rightarrow> EventContext \<Rightarrow> pull \<Rightarrow> string \<Rightarrow> string \<Rightarrow> string \<Rightarrow> ConflictSummary \<Rightarrow> unit prog" where
  "reportConflicts env ctx pr sourceBr targetBr intermediateBr conflicts =
     bnd (if sourceConflict conflicts
          then seq (applyLabel env ctx pr (sourceConflictLabel ctx))
               (ret [sourceNote sourceBr intermediateBr])
          else seq (logm (Debug (''Encountered no '' @ sourceBr @ '' => '' @ intermediateBr @
                           '' conflict'')))
               (seq (removeLabel env ctx pr (sourceConflictLabel ctx)) (ret []))) (\<lambda>notes1.
     bnd (if targetConflict conflicts
          then seq (applyLabel env ctx pr (targetConflictLabel ctx))
               (ret (notes1 @ [targetNote targetBr intermediateBr]))
          else seq (logm (Debug (''Encountered no '' @ targetBr @ '' => '' @ intermediateBr @
                           '' conflict'')))
               (seq (removeLabel env ctx pr (targetConflictLabel ctx)) (ret notes1))) (\<lambda>notes.
     seq (warnAll notes)
     (await (comment env ctx (number pr) notes))))"

section \<open>Kicking a pull request\<close>

text \<open>
  Closes, pauses, then reopens a given PR. The test of the two clients guards a debug
  line only: the function goes on to close and reopen whatever the test finds.
\<close>

definition kickCI :: "env \<Rightarrow> EventContext \<Rightarrow> nat \<Rightarrow> unit prog" where
  "kickCI env ctx pull_number =
     seq (if actionsOctokit ctx = prOctokit ctx
          then logm (Debug ''Actions Octokit is the same as PR Octokit. Skipping CI kick.'')
          else ret ())
     (seq (logm (Debug (''Closing '' @ show_nat pull_number)))
     (seq (call (\<lambda>h. pulls_update env h (prOctokit ctx) pull_number Closed)
             (UpdatePull (prOctokit ctx) pull_number Closed))
     (seq (logm (Debug (''Closed '' @ show_nat pull_number)))
     (seq sleep
     (seq (logm (Debug (''Reopening '' @ show_nat pull_number)))
     (seq (call (\<lambda>h. pulls_update env h (prOctokit ctx) pull_number Open)
             (UpdatePull (prOctokit ctx) pull_number Open))
     (logm (Debug (''Reopened '' @ show_nat pull_number)))))))))"

section \<open>The two flows\<close>

definition intermediateBranchName :: "string \<Rightarrow> string \<Rightarrow> string" where
  "intermediateBranchName sourceBr targetBr =
     ''merge/'' @ map (\<lambda>c. if c = CHR ''/'' then CHR ''-'' else c) sourceBr @ ''_to_'' @
     map (\<lambda>c. if c = CHR ''/'' then CHR ''-'' else c) targetBr"

text \<open>
  The body of \<^verbatim>\<open>if (useIntermediateBranch) { ... }\<close> in
  \<^verbatim>\<open>handlePushToSourceBranch\<close>. It returns the two variables it assigns:
  \<^verbatim>\<open>needsKick\<close> and \<^verbatim>\<open>conflicts\<close>. Each \<^verbatim>\<open>try\<close> assigns
  \<^verbatim>\<open>needsKick\<close> when its merge returns and leaves it as it was when the merge
  throws.
\<close>

definition updateIntermediateBranch ::
  "env \<Rightarrow> EventContext \<Rightarrow> string \<Rightarrow> string \<Rightarrow> (bool \<times> ConflictSummary) prog" where
  "updateIntermediateBranch env ctx head targetBr =
     bnd (await (getBranch env ctx (pushedBranch ctx))) (\<lambda>baseCommit.
     seq (await (createBranch env ctx head baseCommit))
     (bnd (catch (bnd (await (merge env ctx head (pushedBranch ctx)))
                   (\<lambda>merged. ret (merged, False)))
            (\<lambda>_. ret (False, True))) (\<lambda>(needsKick1, sourceConflicted).
      bnd (catch (bnd (await (merge env ctx head targetBr)) (\<lambda>merged. ret (merged, False)))
            (\<lambda>_. ret (needsKick1, True))) (\<lambda>(needsKick, targetConflicted).
      ret (needsKick,
           \<lparr>sourceConflict = sourceConflicted, targetConflict = targetConflicted\<rparr>)))))"

definition existingPRsOf :: "string \<Rightarrow> string \<Rightarrow> pull list \<Rightarrow> pull list" where
  "existingPRsOf head base pulls = filter (\<lambda>p. head_ref p = head \<and> base_ref p = base) pulls"

text \<open>
  The end of both flows for a pull request that exists already, which is the same text
  in both but for the update that is returned: when \<^verbatim>\<open>needsKick\<close> is set the
  pull request is kicked and the update returned, otherwise nothing is returned.
\<close>

definition kickIfNeeded ::
  "env \<Rightarrow> EventContext \<Rightarrow> pull \<Rightarrow> bool \<Rightarrow> PRUpdate \<Rightarrow> PRUpdate option prog" where
  "kickIfNeeded env ctx existingPR needsKick update =
     (if needsKick
      then seq (await (kickCI env ctx (number existingPR)))
           (seq (logm (Info (''Successfully updated PR: '' @ html_url existingPR)))
           (ret (Some update)))
      else seq (logm (Debug ''Skipping close+reopen.'')) (ret None))"

text \<open>
  The second half of \<^verbatim>\<open>handlePushToSourceBranch\<close>, from the listing of the open
  pull requests to the end, with the variables of the first half that it reads as
  arguments: \<open>updateExistingPR\<close> is the body of
  \<^verbatim>\<open>if (existingPR !== undefined) { ... }\<close>, \<open>createPR\<close> is what follows it.
\<close>

definition updateExistingPR ::
  "env \<Rightarrow> EventContext \<Rightarrow> pull \<Rightarrow> string \<Rightarrow> string \<Rightarrow> bool \<Rightarrow> ConflictSummary \<Rightarrow>
   PRUpdate option prog" where
  "updateExistingPR env ctx existingPR head targetBr needsKick conflicts =
     seq (logm (Info (''A PR from '' @ head @ '' to '' @ targetBr @ '' already exists.'')))
     (seq (await (reportConflicts env ctx existingPR (pushedBranch ctx) targetBr head conflicts))
     (kickIfNeeded env ctx existingPR needsKick
        \<lparr>sourceBranch = pushedBranch ctx, targetBranch = targetBr,
         headBranch = head_ref existingPR, baseBranch = base_ref existingPR,
         url = html_url existingPR\<rparr>))"

definition createPR ::
  "env \<Rightarrow> EventContext \<Rightarrow> string \<Rightarrow> string \<Rightarrow> ConflictSummary \<Rightarrow> PRUpdate option prog" where
  "createPR env ctx head targetBr conflicts =
     (let view = \<lparr>source_pattern = sourceBranchPattern ctx,
                  original_source = pushedBranch ctx, source = head, target = targetBr,
                  use_intermediate_branch = useIntermediateBranch ctx\<rparr> in
      bnd (lift (Mustache_render env (prTitleTemplate ctx) view)) (\<lambda>title.
      bnd (lift (Mustache_render env (prBodyTemplate ctx) view)) (\<lambda>body.
      seq (logm (Debug ''Create new pull request''))
      (bnd (call (\<lambda>h. pulls_create env h (prOctokit ctx) title body head targetBr)
              (CreatePull (prOctokit ctx) title body head targetBr)) (\<lambda>newPr.
       seq (logm (Debug (''Created new pull request: '' @ JSON_stringify_pull env newPr)))
       (seq (logm (Info (''Successfully created PR: '' @ html_url newPr)))
       (seq (await (reportConflicts env ctx newPr (pushedBranch ctx) targetBr head conflicts))
       (ret (Some \<lparr>sourceBranch = pushedBranch ctx, targetBranch = targetBr,
              headBranch = head_ref newPr, baseBranch = base_ref newPr,
              url = html_url newPr\<rparr>)))))))))"

definition createOrUpdatePR ::
  "env \<Rightarrow> EventContext \<Rightarrow> string \<Rightarrow> string \<Rightarrow> bool \<Rightarrow> ConflictSummary \<Rightarrow> PRUpdate option prog" where
  "createOrUpdatePR env ctx head targetBr needsKick conflicts =
     bnd (call (\<lambda>h. pulls_list env h targetBr head) (ListPulls targetBr head)) (\<lambda>pulls.
     seq (if length (existingPRsOf head targetBr pulls) > 1
          then logm (Warning (''Found multiple PRs from '' @ head @ '' to '' @ targetBr @
                 ''. That's impossible... Merging the first one.''))
          else ret ())
     (case existingPRsOf head targetBr pulls of
        existingPR # _ \<Rightarrow> updateExistingPR env ctx existingPR head targetBr needsKick conflicts
      | [] \<Rightarrow> createPR env ctx head targetBr conflicts))"

text \<open>Creates/Updates a single sync PR when there is a push to the SOURCE (head) branch of that PR.\<close>

definition handlePushToSourceBranch ::
  "env \<Rightarrow> EventContext \<Rightarrow> string \<Rightarrow> PRUpdate option prog" where
  "handlePushToSourceBranch env ctx targetBr =
     seq (logm (Info (''Opening/Updating sync PR: '' @ pushedBranch ctx @ '' => '' @ targetBr)))
     (seq (await (getBranch env ctx targetBr))
     (let head = (if useIntermediateBranch ctx
                  then intermediateBranchName (pushedBranch ctx) targetBr
                  else pushedBranch ctx) in
      bnd (if useIntermediateBranch ctx
           then updateIntermediateBranch env ctx head targetBr
           else ret (False, \<lparr>sourceConflict = False, targetConflict = False\<rparr>))
        (\<lambda>(needsKick, conflicts).
      createOrUpdatePR env ctx head targetBr needsKick conflicts)))"

text \<open>Updates a single sync PR when there is a push to the TARGET (base) branch of that PR.\<close>

definition handlePushToTargetBranch ::
  "env \<Rightarrow> EventContext \<Rightarrow> string \<Rightarrow> PRUpdate option prog" where
  "handlePushToTargetBranch env ctx sourceBr =
     (if \<not> useIntermediateBranch ctx
      then seq (logm (Info (''Update not required for '' @ sourceBr @ '' => '' @ pushedBranch ctx)))
           (ret None)
      else
        seq (logm (Info (''Update '' @ sourceBr @ '' => '' @ pushedBranch ctx)))
        (let head = intermediateBranchName sourceBr (pushedBranch ctx) in
         bnd (call (\<lambda>h. pulls_list env h (pushedBranch ctx) head)
                (ListPulls (pushedBranch ctx) head)) (\<lambda>pulls.
         seq (if length (existingPRsOf head (pushedBranch ctx) pulls) > 1
              then logm (LogError (''Found multiple PRs from '' @ head @ '' to '' @
                     pushedBranch ctx @ ''. That's impossible.''))
              else ret ())
         (case existingPRsOf head (pushedBranch ctx) pulls of
            [] \<Rightarrow>
              seq (logm (Info (''A PR from '' @ head @ '' to '' @ pushedBranch ctx @
                     '' doesn't exist. Skipping update.'')))
              (ret None)
          | existingPR # _ \<Rightarrow>
              bnd (catch (bnd (await (merge env ctx head (pushedBranch ctx)))
                            (\<lambda>merged. ret (merged, False)))
                     (\<lambda>_. seq (logm (Warning (''Failed to merge '' @ pushedBranch ctx @
                                  '' into '' @ head @ ''. Possibly a conflict?'')))
                          (ret (False, True)))) (\<lambda>(needsKick, targetConflicted).
              seq (await (reportConflicts env ctx existingPR sourceBr (pushedBranch ctx) head
                     \<lparr>sourceConflict = False, targetConflict = targetConflicted\<rparr>))
              (kickIfNeeded env ctx existingPR needsKick
                 \<lparr>sourceBranch = sourceBr, targetBranch = pushedBranch ctx,
                  headBranch = head_ref existingPR, baseBranch = base_ref existingPR,
                  url = html_url existingPR\<rparr>))))))"

section \<open>The inputs of the action and the push event\<close>

text \<open>
  \<^verbatim>\<open>String.prototype.trim\<close> removes white space and line terminators at both
  ends: the characters U+0009 to U+000D, the space, the no-break space U+00A0, U+1680,
  U+2000 to U+200A, U+2028, U+2029, U+202F, U+205F, U+3000 and U+FEFF. \<open>stripLeading\<close>
  removes, from the front of a string, any number of the given byte sequences.
\<close>

definition whiteSpaces :: "string list" where
  "whiteSpaces =
     [ [CHR 0x09], [CHR 0x0A], [CHR 0x0B], [CHR 0x0C], [CHR 0x0D], [CHR 0x20],
      [CHR 0xC2, CHR 0xA0], [CHR 0xE1, CHR 0x9A, CHR 0x80],
      [CHR 0xE2, CHR 0x80, CHR 0x80], [CHR 0xE2, CHR 0x80, CHR 0x81],
      [CHR 0xE2, CHR 0x80, CHR 0x82], [CHR 0xE2, CHR 0x80, CHR 0x83],
      [CHR 0xE2, CHR 0x80, CHR 0x84], [CHR 0xE2, CHR 0x80, CHR 0x85],
      [CHR 0xE2, CHR 0x80, CHR 0x86], [CHR 0xE2, CHR 0x80, CHR 0x87],
      [CHR 0xE2, CHR 0x80, CHR 0x88], [CHR 0xE2, CHR 0x80, CHR 0x89],
      [CHR 0xE2, CHR 0x80, CHR 0x8A], [CHR 0xE2, CHR 0x80, CHR 0xA8],
      [CHR 0xE2, CHR 0x80, CHR 0xA9], [CHR 0xE2, CHR 0x80, CHR 0xAF],
      [CHR 0xE2, CHR 0x81, CHR 0x9F], [CHR 0xE3, CHR 0x80, CHR 0x80],
      [CHR 0xEF, CHR 0xBB, CHR 0xBF] ]"

function stripLeading :: "string list \<Rightarrow> string \<Rightarrow> string" where
  "stripLeading seqs s =
     (case find (\<lambda>t. t \<noteq> [] \<and> prefix t s) seqs of
        None \<Rightarrow> s
      | Some t \<Rightarrow> stripLeading seqs (drop (length t) s))"
  by pat_completeness auto
termination
  by (relation "measure (\<lambda>(seqs, s). length s)") (auto simp: find_Some_iff prefix_def)

declare stripLeading.simps [simp del]

definition trim :: "string \<Rightarrow> string" where
  "trim s = rev (stripLeading (map rev whiteSpaces) (rev (stripLeading whiteSpaces s)))"

text \<open>
  \<^verbatim>\<open>core.getInput(name, { required })\<close>: the check of a required input is made on
  the value as it is, the value returned is trimmed.
\<close>

definition getInput :: "env \<Rightarrow> string \<Rightarrow> bool \<Rightarrow> string prog" where
  "getInput env name required =
     (if required \<and> INPUT env name = []
      then raise (Error (''Input required and not supplied: '' @ name))
      else ret (trim (INPUT env name)))"

definition getBooleanInput :: "env \<Rightarrow> string \<Rightarrow> bool \<Rightarrow> bool prog" where
  "getBooleanInput env name required =
     bnd (getInput env name required) (\<lambda>val.
     if val \<in> set [''true'', ''True'', ''TRUE''] then ret True
     else if val \<in> set [''false'', ''False'', ''FALSE''] then ret False
     else raise (TypeError (''Input does not meet YAML 1.2 '' @ [CHR 0x22] @ ''Core Schema'' @
            [CHR 0x22] @ '' specification: '' @ name @ [CHR 0x0A] @
            ''Support boolean input list: `true | True | TRUE | false | False | FALSE`'')))"

text \<open>Returns push event values gathered from CI environment variables.\<close>

definition checkPushEventEnv :: "env \<Rightarrow> PushEvent prog" where
  "checkPushEventEnv env =
     (case GITHUB_EVENT_PATH env of
        None \<Rightarrow> raise (Error ''Expected non-nil event path'')
      | Some eventPath \<Rightarrow>
          if eventPath = [] then raise (Error ''Expected non-nil event path'')
          else
            (case GITHUB_REPOSITORY env of
               None \<Rightarrow> raise (Error ''Expected non-nil repo path'')
             | Some repoPath \<Rightarrow>
                 if repoPath = [] then raise (Error ''Expected non-nil repo path'')
                 else await (lift (readEvent env eventPath))))"

text \<open>Creates a new client that authenticates with the given personal access token.\<close>

definition mkOctokitFromPAT :: "string \<Rightarrow> octokit prog" where
  "mkOctokitFromPAT token =
     seq (logm (Debug ''Creating new octokit''))
     (seq (logm (Debug ''New octokit created''))
     (seq (logm (Debug ''Auth new octokit''))
     (seq (await (ret ()))
     (seq (logm (Debug ''Authed new octokit''))
     (ret (PATOctokit token))))))"

section \<open>The run\<close>

text \<open>
  The body of each of the two \<^verbatim>\<open>for\<close> loops of \<^verbatim>\<open>updateSyncPRs\<close>, which
  differ in the handler they call only: the handler runs inside \<^verbatim>\<open>try\<close>, an
  update it returns is pushed on \<^verbatim>\<open>syncedPRs\<close>, and a value it throws is logged
  and fails the run.
\<close>

definition tryIteration :: "PRUpdate option prog \<Rightarrow> PRUpdate list \<Rightarrow> PRUpdate list prog" where
  "tryIteration handler syncedPRs =
     catch
       (bnd (await handler) (\<lambda>update.
        ret (case update of Some u \<Rightarrow> syncedPRs @ [u] | None \<Rightarrow> syncedPRs)))
       (\<lambda>err.
        seq (case err of
               RequestError st m \<Rightarrow> logm (LogError (''status: '' @ show_nat st))
             | _ \<Rightarrow> ret ())
        (seq (setFailed (error_toString err))
        (ret syncedPRs)))"

primrec forEachBranch ::
  "(string \<Rightarrow> PRUpdate option prog) \<Rightarrow> string list \<Rightarrow> PRUpdate list \<Rightarrow> PRUpdate list prog" where
  "forEachBranch handler [] syncedPRs = ret syncedPRs"
| "forEachBranch handler (branch # branches) syncedPRs =
     bnd (tryIteration (handler branch) syncedPRs) (forEachBranch handler branches)"

text \<open>
  The first part of \<^verbatim>\<open>updateSyncPRs\<close>, up to the construction of the context.
  The inputs are read in the order of the fields of the object literal.
\<close>

definition pushContext :: "env \<Rightarrow> octokit \<Rightarrow> EventContext prog" where
  "pushContext env actionsOkit =
     bnd (await (checkPushEventEnv env)) (\<lambda>event.
     case refAsBranch (ref event) of
       None \<Rightarrow>
         raise (Error (''Unable to determine head branch. ref was '' @ ref event @
           ''. Did you forget to limit the workflow to only branches?''))
     | Some pushed \<Rightarrow>
         bnd (getInput env ''PR_CREATE_TOKEN'' False) (\<lambda>prToken.
         bnd (await (if prToken \<noteq> [] then mkOctokitFromPAT prToken else ret actionsOkit))
           (\<lambda>prOkit.
         bnd (getInput env ''source_pattern'' True) (\<lambda>sourcePattern.
         bnd (getInput env ''target_pattern'' True) (\<lambda>targetPattern.
         bnd (getBooleanInput env ''use_intermediate_branch'' True) (\<lambda>useIntermediate.
         bnd (getInput env ''pr_title'' True) (\<lambda>prTitle.
         bnd (getInput env ''pr_body'' True) (\<lambda>prBody.
         bnd (getInput env ''source_conflict_label'' False) (\<lambda>sourceLabel.
         bnd (getInput env ''target_conflict_label'' False) (\<lambda>targetLabel.
         ret \<lparr>owner = repository_owner_login event, repo = repository_name event,
              pushedBranch = pushed, useIntermediateBranch = useIntermediate,
              sourceBranchPattern = sourcePattern, targetBranchPattern = targetPattern,
              prTitleTemplate = prTitle, prBodyTemplate = prBody,
              sourceConflictLabel = sourceLabel, targetConflictLabel = targetLabel,
              actionsOctokit = actionsOkit, prOctokit = prOkit\<rparr>))))))))))"

definition matchedDebug :: "string \<Rightarrow> string \<Rightarrow> string \<Rightarrow> string \<Rightarrow> string" where
  "matchedDebug side pushed patternKey pat =
     ''Matched '' @ side @ '' pattern: {'' @ JSON_stringify_string ''pushedBranch'' @ '':'' @
     JSON_stringify_string pushed @ '','' @ JSON_stringify_string patternKey @ '':'' @
     JSON_stringify_string pat @ ''}''"

text \<open>
  The rest of \<^verbatim>\<open>updateSyncPRs\<close>: the branches are listed once, then the targets
  are synchronised when the pushed branch matches the source pattern, then the sources
  when it matches the target pattern, and the output is set. The two \<^verbatim>\<open>if\<close>
  blocks are \<open>onPushToSource\<close> and \<open>onPushToTarget\<close>; each takes
  \<^verbatim>\<open>syncedPRs\<close> as it is before the block and returns it as it is after.
\<close>

definition onPushToSource ::
  "env \<Rightarrow> EventContext \<Rightarrow> string list \<Rightarrow> PRUpdate list \<Rightarrow> PRUpdate list prog" where
  "onPushToSource env ctx branches syncedPRs =
     (if minimatch env (pushedBranch ctx) (sourceBranchPattern ctx)
      then
        seq (logm (Debug (matchedDebug ''source'' (pushedBranch ctx)
                    ''sourceBranchPattern'' (sourceBranchPattern ctx))))
        (let targets = filter (\<lambda>b. minimatch env b (targetBranchPattern ctx)) branches in
         seq (logm (Debug (''Will open/update sync PRs targeting: '' @ join '','' targets)))
         (forEachBranch (handlePushToSourceBranch env ctx) targets syncedPRs))
      else ret syncedPRs)"

definition onPushToTarget ::
  "env \<Rightarrow> EventContext \<Rightarrow> string list \<Rightarrow> PRUpdate list \<Rightarrow> PRUpdate list prog" where
  "onPushToTarget env ctx branches syncedPRs =
     (if minimatch env (pushedBranch ctx) (targetBranchPattern ctx)
      then
        seq (logm (Debug (matchedDebug ''target'' (pushedBranch ctx)
                    ''targetBranchPattern'' (targetBranchPattern ctx))))
        (let sources = filter (\<lambda>b. minimatch env b (sourceBranchPattern ctx)) branches in
         seq (logm (Debug (''Will update sync PRs with sources: '' @ join '','' sources)))
         (forEachBranch (handlePushToTargetBranch env ctx) sources syncedPRs))
      else ret syncedPRs)"

definition syncBranches :: "env \<Rightarrow> EventContext \<Rightarrow> unit prog" where
  "syncBranches env ctx =
     bnd (call (\<lambda>h. repos_listBranches env h) ListBranches) (\<lambda>branches.
     bnd (onPushToSource env ctx branches []) (\<lambda>syncedPRs1.
     bnd (onPushToTarget env ctx branches syncedPRs1) (\<lambda>syncedPRs.
     seq (setOutput ''syncedPRs'' syncedPRs)
     (logm (Info ''Done'')))))"

text \<open>Creates/Updates sync PRs according to provided branch patterns.\<close>

definition updateSyncPRs :: "env \<Rightarrow> octokit \<Rightarrow> unit prog" where
  "updateSyncPRs env actionsOkit = bnd (pushContext env actionsOkit) (syncBranches env)"

definition run :: "env \<Rightarrow> unit prog" where
  "run env =
     (if GITHUB_EVENT_NAME env \<noteq> Some ''push''
      then setFailed (''sync-branches only works on '' @ [CHR 0x22] @ ''push'' @ [CHR 0x22] @
             '' events'')
      else
        catch
          (seq (getInput env ''GITHUB_TOKEN'' True)
          (await (updateSyncPRs env ActionsOctokit)))
          (\<lambda>err.
           seq (case err of
                  RequestError st m \<Rightarrow> logm (LogError (''status: '' @ show_nat st))
                | _ \<Rightarrow> ret ())
           (setFailed (error_toString err))))"

text \<open>
  The last line of the file, \<^verbatim>\<open>run();\<close>: the run, and then the process lives
  until nothing is pending.
\<close>

definition main :: "env \<Rightarrow> world \<Rightarrow> world" where
  "main env w = drain (snd (run env w))"

section \<open>Describing a run\<close>

text \<open>
  The exchanges that \<^verbatim>\<open>applyLabel\<close> or \<^verbatim>\<open>removeLabel\<close> make for one side of
  a conflict report, with the answer \<open>r\<close> of the platform: nothing for an empty label
  name; for a side that conflicted, the label is added unless the pull request has it;
  for a side that did not, the label is removed if the pull request has it.
  \<open>labelTasks\<close> are the tasks they leave behind, one for each request, and
  \<open>labelAnswer\<close> is the answer of the platform to the request, after the exchanges
  \<open>h\<close>.
\<close>

definition labelStep :: "bool \<Rightarrow> string \<Rightarrow> pull \<Rightarrow> error + unit \<Rightarrow> exchange list" where
  "labelStep conflicted label pr r =
     (if label = [] then []
      else if conflicted
        then (if label \<in> set (labels pr) then [] else [AddLabels (number pr) [label] r])
        else (if label \<in> set (labels pr) then [RemoveLabel (number pr) label r] else []))"

definition labelTasks :: "bool \<Rightarrow> string \<Rightarrow> pull \<Rightarrow> error + unit \<Rightarrow> task list" where
  "labelTasks conflicted label pr r =
     (if label = [] then []
      else if conflicted
        then (if label \<in> set (labels pr) then [] else [ApplyingLabel label r])
        else (if label \<in> set (labels pr) then [RemovingLabel label r] else []))"

definition labelAnswer :: "env \<Rightarrow> exchange list \<Rightarrow> bool \<Rightarrow> string \<Rightarrow> pull \<Rightarrow> error + unit" where
  "labelAnswer env h conflicted label pr =
     (if conflicted then issues_addLabels env h (number pr) [label]
      else issues_removeLabel env h (number pr) label)"

definition notesOf :: "ConflictSummary \<Rightarrow> string \<Rightarrow> string \<Rightarrow> string \<Rightarrow> string list" where
  "notesOf conflicts sourceBr targetBr intermediateBr =
     (if sourceConflict conflicts then [sourceNote sourceBr intermediateBr] else []) @
     (if targetConflict conflicts then [targetNote targetBr intermediateBr] else [])"

definition commentStep :: "nat \<Rightarrow> string list \<Rightarrow> error + unit \<Rightarrow> exchange list" where
  "commentStep n notes r = (if notes = [] then [] else [CreateComment n (commentReport notes) r])"

text \<open>The value an exchange threw, if it threw.\<close>

fun thrownBy :: "exchange \<Rightarrow> error option" where
  "thrownBy (GetBranch b r) = (case r of Inl e \<Rightarrow> Some e | Inr x \<Rightarrow> None)"
| "thrownBy (CreateRef b s r) = (case r of Inl e \<Rightarrow> Some e | Inr x \<Rightarrow> None)"
| "thrownBy (Merge b h r) = (case r of Inl e \<Rightarrow> Some e | Inr x \<Rightarrow> None)"
| "thrownBy (ListBranches r) = (case r of Inl e \<Rightarrow> Some e | Inr x \<Rightarrow> None)"
| "thrownBy (ListPulls b h r) = (case r of Inl e \<Rightarrow> Some e | Inr x \<Rightarrow> None)"
| "thrownBy (CreatePull okit t bd h b r) = (case r of Inl e \<Rightarrow> Some e | Inr x \<Rightarrow> None)"
| "thrownBy (UpdatePull okit n st r) = (case r of Inl e \<Rightarrow> Some e | Inr x \<Rightarrow> None)"
| "thrownBy (CreateComment n b r) = (case r of Inl e \<Rightarrow> Some e | Inr x \<Rightarrow> None)"
| "thrownBy (AddLabels n ls r) = (case r of Inl e \<Rightarrow> Some e | Inr x \<Rightarrow> None)"
| "thrownBy (RemoveLabel n l r) = (case r of Inl e \<Rightarrow> Some e | Inr x \<Rightarrow> None)"

text \<open>Every exchange of \<open>new\<close> that threw has its error among the warnings of \<open>nl\<close>.\<close>

definition warned :: "exchange list \<Rightarrow> log_entry list \<Rightarrow> bool" where
  "warned new nl = list_all (\<lambda>x. case thrownBy x of None \<Rightarrow> True | Some e \<Rightarrow> Warning (error_toString e) \<in> set nl) new"

text \<open>
  The exchanges of one conflict report, first with the three answers of the platform as
  parameters, then with the answers that the platform gives after the exchanges \<open>h\<close>:
  the label step of the source side, the label step of the target side, and one comment
  with the report of all the notes when there is a note.
\<close>

definition reportExchanges ::
  "EventContext \<Rightarrow> pull \<Rightarrow> ConflictSummary \<Rightarrow> string \<Rightarrow> string \<Rightarrow> string \<Rightarrow>
   error + unit \<Rightarrow> error + unit \<Rightarrow> error + unit \<Rightarrow> exchange list" where
  "reportExchanges ctx pr conflicts sourceBr targetBr intermediateBr r1 r2 r3 =
     labelStep (sourceConflict conflicts) (sourceConflictLabel ctx) pr r1 @
     labelStep (targetConflict conflicts) (targetConflictLabel ctx) pr r2 @
     commentStep (number pr) (notesOf conflicts sourceBr targetBr intermediateBr) r3"

definition reportOf ::
  "env \<Rightarrow> exchange list \<Rightarrow> EventContext \<Rightarrow> pull \<Rightarrow> ConflictSummary \<Rightarrow> string \<Rightarrow> string \<Rightarrow>
   string \<Rightarrow> exchange list" where
  "reportOf env h ctx pr conflicts sourceBr targetBr intermediateBr =
     (let r1 = labelAnswer env h (sourceConflict conflicts) (sourceConflictLabel ctx) pr;
          h1 = h @ labelStep (sourceConflict conflicts) (sourceConflictLabel ctx) pr r1;
          r2 = labelAnswer env h1 (targetConflict conflicts) (targetConflictLabel ctx) pr;
          h2 = h1 @ labelStep (targetConflict conflicts) (targetConflictLabel ctx) pr r2;
          r3 = issues_createComment env h2 (number pr)
                 (commentReport (notesOf conflicts sourceBr targetBr intermediateBr))
      in reportExchanges ctx pr conflicts sourceBr targetBr intermediateBr r1 r2 r3)"

text \<open>
  The world with exchanges and log lines added at its end. \<open>kept w w'\<close> says that
  \<open>w'\<close> has the log of \<open>w\<close> and more lines after it, and that no task that was pending
  in \<open>w\<close> is lost: it is still pending in \<open>w'\<close>, or the lines it logs are among the
  new ones.
\<close>

definition extend :: "world \<Rightarrow> exchange list \<Rightarrow> log_entry list \<Rightarrow> world" where
  "extend w new nl = w\<lparr>calls := calls w @ new, logs := logs w @ nl\<rparr>"

definition kept :: "world \<Rightarrow> world \<Rightarrow> bool" where
  "kept w w' =
     (\<exists>l. logs w' = logs w @ l \<and>
          list_all (\<lambda>t. t \<in> set (pending w') \<or> set (resumed t) \<subseteq> set l) (pending w))"

text \<open>
  A program that adds exchanges, every one of them satisfying \<open>P\<close>, and log lines, that
  loses no task, and that leaves the rest of the world as it was.
\<close>

definition emitsOnly :: "(exchange \<Rightarrow> bool) \<Rightarrow> 'a prog \<Rightarrow> bool" where
  "emitsOnly P m =
     (\<forall>w. (\<exists>new. calls (snd (m w)) = calls w @ new \<and> list_all P new) \<and>
          kept w (snd (m w)) \<and>
          failed (snd (m w)) = failed w \<and> outputs (snd (m w)) = outputs w)"

text \<open>
  The outcomes of the iterations of a loop of \<^verbatim>\<open>updateSyncPRs\<close>, one for each
  branch in the order of the branches: what the handler threw or returned, each
  iteration starting in the world that the iteration before it left. \<open>updatesOf\<close>
  keeps the updates that the iterations returned. \<open>targetsOf\<close> and \<open>sourcesOf\<close> are
  the branches that the two loops of a run go through: none when the pushed branch does
  not match the pattern of its side.
\<close>

definition updatesOf :: "(error + PRUpdate option) list \<Rightarrow> PRUpdate list" where
  "updatesOf outs = concat (map (\<lambda>out. case out of Inr (Some u) \<Rightarrow> [u] | _ \<Rightarrow> []) outs)"

fun outcomesOf ::
  "(string \<Rightarrow> PRUpdate option prog) \<Rightarrow> string list \<Rightarrow> world \<Rightarrow> (error + PRUpdate option) list" where
  "outcomesOf handler [] w = []"
| "outcomesOf handler (branch # branches) w =
     fst (handler branch w) # outcomesOf handler branches (snd (tryIteration (handler branch) [] w))"

definition targetsOf :: "env \<Rightarrow> EventContext \<Rightarrow> string list \<Rightarrow> string list" where
  "targetsOf env ctx branches =
     (if minimatch env (pushedBranch ctx) (sourceBranchPattern ctx)
      then filter (\<lambda>b. minimatch env b (targetBranchPattern ctx)) branches else [])"

definition sourcesOf :: "env \<Rightarrow> EventContext \<Rightarrow> string list \<Rightarrow> string list" where
  "sourcesOf env ctx branches =
     (if minimatch env (pushedBranch ctx) (targetBranchPattern ctx)
      then filter (\<lambda>b. minimatch env b (sourceBranchPattern ctx)) branches else [])"


fun isCreateComment :: "exchange \<Rightarrow> bool" where
  "isCreateComment (CreateComment n b r) = True"
| "isCreateComment _ = False"



text \<open>
  \<open>bnd\<close> and \<open>catch\<close> seen from the outcome of their first part: what follows a
  value returned, and what handles a value thrown.
\<close>

fun andThen :: "('a \<Rightarrow> 'b prog) \<Rightarrow> (error + 'a) \<times> world \<Rightarrow> (error + 'b) \<times> world" where
  "andThen f (Inl e, w) = (Inl e, w)"
| "andThen f (Inr x, w) = f x w"

fun orElse :: "(error \<Rightarrow> 'a prog) \<Rightarrow> (error + 'a) \<times> world \<Rightarrow> (error + 'a) \<times> world" where
  "orElse h (Inl e, w) = h e w"
| "orElse h (Inr x, w) = (Inr x, w)"

section \<open>Scenarios\<close>

text \<open>
  A platform on which every request succeeds: every branch exists, a merge finds nothing
  to merge, no pull request is open. The scenarios below change one answer or another.
  Patterns are plain branch names, which \<^verbatim>\<open>minimatch\<close> matches by equality.
\<close>

definition exampleEnv :: env where
  "exampleEnv =
     \<lparr>repos_getBranch = (\<lambda>h b. Inr ''c0ffee''),
      git_createRef = (\<lambda>h r s. Inr s),
      repos_merge = (\<lambda>h b hd. Inr 204),
      repos_listBranches = (\<lambda>h. Inr [''main'', ''release'']),
      pulls_list = (\<lambda>h b hd. Inr []),
      pulls_create = (\<lambda>h okit t bd hd b.
        Inr \<lparr>number = 1, head_ref = hd, base_ref = b,
             html_url = ''https://example.test/pull/1'', labels = []\<rparr>),
      pulls_update = (\<lambda>h okit n st. Inr ()),
      issues_createComment = (\<lambda>h n b. Inr ()),
      issues_addLabels = (\<lambda>h n ls. Inr ()),
      issues_removeLabel = (\<lambda>h n l. Inr ()),
      minimatch = (\<lambda>s p. s = p),
      Mustache_render = (\<lambda>t v. Inr t),
      JSON_stringify_pull = (\<lambda>p. ''{}''),
      INPUT = (\<lambda>n. []),
      GITHUB_EVENT_NAME = Some ''push'',
      GITHUB_EVENT_PATH = Some ''/event.json'',
      GITHUB_REPOSITORY = Some ''o/r'',
      readEvent = (\<lambda>p. Inr \<lparr>after = ''c0ffee'', ref = ''refs/heads/release'',
        repository_name = ''r'', repository_owner_login = ''o''\<rparr>)\<rparr>"

text \<open>A push to \<^verbatim>\<open>release\<close>, synchronised into \<^verbatim>\<open>main\<close> through an intermediate branch.\<close>

definition exampleCtx :: EventContext where
  "exampleCtx =
     \<lparr>owner = ''o'', repo = ''r'', pushedBranch = ''release'', useIntermediateBranch = True,
      sourceBranchPattern = ''release'', targetBranchPattern = ''main'',
      prTitleTemplate = ''title'', prBodyTemplate = ''body'',
      sourceConflictLabel = ''source-conflict'', targetConflictLabel = ''target-conflict'',
      actionsOctokit = ActionsOctokit, prOctokit = PATOctokit ''pat''\<rparr>"

text \<open>Nothing has happened yet, and no answer arrives before the program is done.\<close>

definition emptyWorld :: world where
  "emptyWorld =
     \<lparr>calls = [], logs = [], failed = False, outputs = [], pending = [],
      arrivals = (\<lambda>n. [])\<rparr>"

text \<open>The same, but every answer arrives during the next \<^verbatim>\<open>await\<close>.\<close>

definition promptWorld :: world where
  "promptWorld = emptyWorld\<lparr>arrivals := \<lambda>n. [0, 0]\<rparr>"

text \<open>An open pull request of the intermediate branch, without labels and with one.\<close>

definition openPR :: pull where
  "openPR = \<lparr>number = 7, head_ref = ''merge/release_to_main'', base_ref = ''main'',
     html_url = ''https://example.test/pull/7'', labels = []\<rparr>"

definition labelledPR :: pull where
  "labelledPR = openPR\<lparr>labels := [''target-conflict'']\<rparr>"

definition otherPR :: pull where
  "otherPR = \<lparr>number = 3, head_ref = ''feature'', base_ref = ''main'',
     html_url = ''https://example.test/pull/3'', labels = []\<rparr>"

text \<open>The pull request is open and every merge creates a merge commit.\<close>

definition kickEnv :: env where
  "kickEnv = exampleEnv\<lparr>pulls_list := \<lambda>h b hd. Inr [openPR], repos_merge := \<lambda>h b hd. Inr 201\<rparr>"

text \<open>
  The pull request is open, the merge of \<^verbatim>\<open>release\<close> creates a merge commit and
  the merge of \<^verbatim>\<open>main\<close> finds nothing to merge.
\<close>

definition sourceOnlyEnv :: env where
  "sourceOnlyEnv =
     exampleEnv\<lparr>pulls_list := \<lambda>h b hd. Inr [openPR],
       repos_merge := \<lambda>h b hd. if hd = ''release'' then Inr 201 else Inr 204\<rparr>"

text \<open>The platform refuses every change of a label.\<close>

definition refusingLabels :: env where
  "refusingLabels =
     exampleEnv\<lparr>issues_addLabels := \<lambda>h n ls. Inl (RequestError 403 ''Forbidden''),
       issues_removeLabel := \<lambda>h n l. Inl (RequestError 403 ''Forbidden'')\<rparr>"

text \<open>
  Two target branches, the first of which cannot be looked up, and a direct pull request
  for each.
\<close>

definition twoTargetsEnv :: env where
  "twoTargetsEnv =
     exampleEnv\<lparr>repos_listBranches := \<lambda>h. Inr [''main'', ''next'', ''release''],
       minimatch := \<lambda>s p. if p = ''{main,next}'' then s = ''main'' \<or> s = ''next'' else s = p,
       repos_getBranch := \<lambda>h b.
         if b = ''main'' then Inl (RequestError 404 ''Branch not found'') else Inr ''c0ffee''\<rparr>"

definition twoTargetsCtx :: EventContext where
  "twoTargetsCtx = exampleCtx\<lparr>targetBranchPattern := ''{main,next}'', useIntermediateBranch := False\<rparr>"

text \<open>A push event whose ref is the bare prefix, with every required input set.\<close>

definition emptyBranchEnv :: env where
  "emptyBranchEnv =
     exampleEnv\<lparr>readEvent := \<lambda>p. Inr \<lparr>after = ''c0ffee'', ref = ''refs/heads/'',
         repository_name = ''r'', repository_owner_login = ''o''\<rparr>,
       INPUT := \<lambda>n.
         if n = ''GITHUB_TOKEN'' then ''token''
         else if n = ''use_intermediate_branch'' then ''false''
         else if n = ''source_pattern'' then ''release''
         else if n = ''target_pattern'' then ''main''
         else if n = ''pr_title'' then ''title''
         else if n = ''pr_body'' then ''body''
         else []\<rparr>"

text \<open>
  The pull request is open, the merge of \<^verbatim>\<open>release\<close> is refused and the merge of
  \<^verbatim>\<open>main\<close> creates a merge commit.
\<close>

definition conflictEnv :: env where
  "conflictEnv =
     exampleEnv\<lparr>pulls_list := \<lambda>h b hd. Inr [openPR],
       repos_merge := \<lambda>h b hd.
         if hd = ''release'' then Inl (RequestError 409 ''Merge conflict'') else Inr 201\<rparr>"

text \<open>
  Patterns that match every branch, so that the pushed branch is a source and a target,
  and direct pull requests.
\<close>

definition selfTargetEnv :: env where
  "selfTargetEnv = exampleEnv\<lparr>minimatch := \<lambda>s p. p = ''*'' \<or> s = p\<rparr>"

definition selfTargetCtx :: EventContext where
  "selfTargetCtx =
     exampleCtx\<lparr>sourceBranchPattern := ''*'', targetBranchPattern := ''*'',
       useIntermediateBranch := False\<rparr>"

text \<open>
  The same conflict with no pull request open, and the context of an action whose two
  label inputs are not set.
\<close>

definition conflictNewEnv :: env where
  "conflictNewEnv = conflictEnv\<lparr>pulls_list := \<lambda>h b hd. Inr []\<rparr>"

definition unlabelledCtx :: EventContext where
  "unlabelledCtx = exampleCtx\<lparr>sourceConflictLabel := [], targetConflictLabel := []\<rparr>"

text \<open>
  A push to \<^verbatim>\<open>release\<close>, which is a source and a target. The targets are
  \<^verbatim>\<open>main\<close>, which cannot be looked up, and \<^verbatim>\<open>release\<close>; the sources
  are \<^verbatim>\<open>dev\<close>, whose pull request is open and gets a merge commit, and
  \<^verbatim>\<open>release\<close>, for which the second listing of the pull requests fails.
\<close>

definition devPR :: pull where
  "devPR = \<lparr>number = 9, head_ref = ''merge/dev_to_release'', base_ref = ''release'',
     html_url = ''https://example.test/pull/9'', labels = []\<rparr>"

definition bothSidesEnv :: env where
  "bothSidesEnv =
     exampleEnv\<lparr>repos_listBranches := \<lambda>h. Inr [''dev'', ''main'', ''release''],
       minimatch := \<lambda>s p.
         if p = ''{dev,release}'' then s = ''dev'' \<or> s = ''release''
         else if p = ''{main,release}'' then s = ''main'' \<or> s = ''release''
         else s = p,
       repos_getBranch := \<lambda>h b.
         if b = ''main'' then Inl (RequestError 404 ''Branch not found'') else Inr ''c0ffee'',
       repos_merge := \<lambda>h b hd. if b = ''merge/dev_to_release'' then Inr 201 else Inr 204,
       pulls_list := \<lambda>h b hd.
         if hd = ''merge/dev_to_release'' then Inr [devPR]
         else if ListPulls b hd (Inr []) \<in> set h
           then Inl (RequestError 503 ''Service unavailable'')
         else Inr []\<rparr>"

definition bothSidesCtx :: EventContext where
  "bothSidesCtx =
     exampleCtx\<lparr>sourceBranchPattern := ''{dev,release}'',
       targetBranchPattern := ''{main,release}''\<rparr>"

section \<open>Running programs\<close>

lemmas prog_defs =
  ret_def raise_def bnd_def seq_def catch_def call_def send_def await_def sleep_def logm_def
  lift_def suspend_def Let_def

lemmas flow_defs =
  handlePushToSourceBranch_def handlePushToTargetBranch_def updateIntermediateBranch_def
  createOrUpdatePR_def updateExistingPR_def createPR_def kickIfNeeded_def existingPRsOf_def
  intermediateBranchName_def getBranch_def
  createBranch_def branchAsRef_def merge_def reportConflicts_def applyLabel_def removeLabel_def
  comment_def kickCI_def

lemmas scenario_defs =
  exampleEnv_def exampleCtx_def emptyWorld_def promptWorld_def openPR_def labelledPR_def
  otherPR_def kickEnv_def
  sourceOnlyEnv_def refusingLabels_def twoTargetsEnv_def twoTargetsCtx_def conflictEnv_def
  selfTargetEnv_def selfTargetCtx_def emptyBranchEnv_def conflictNewEnv_def unlabelledCtx_def
  devPR_def bothSidesEnv_def bothSidesCtx_def show_nat.simps digit_def nameAndMessage_def

lemmas loop_defs =
  tryIteration_def setFailed_def setOutput_def syncBranches_def onPushToSource_def
  onPushToTarget_def updatesOf_def

lemma yield_sel [simp]:
  "calls (yield w) = calls w" "failed (yield w) = failed w" "outputs (yield w) = outputs w"
  by (simp_all add: yield_def split: prod.splits)

lemma yield_literal:
  "yield \<lparr>calls = c, logs = l, failed = f, outputs = out, pending = p, arrivals = a\<rparr> =
     (case resume (a 0) p of
        (nl, rest) \<Rightarrow>
          \<lparr>calls = c, logs = l @ nl, failed = f, outputs = out, pending = rest,
           arrivals = (\<lambda>n. a (Suc n))\<rparr>)"
  by (simp add: yield_def split: prod.splits)

lemma bnd_eval: "bnd m f w = andThen f (m w)"
  by (cases "m w"; cases "fst (m w)") (auto simp: bnd_def)

lemma catch_eval: "catch m h w = orElse h (m w)"
  by (cases "m w"; cases "fst (m w)") (auto simp: catch_def)

lemma await_eval: "await m w = apsnd yield (m w)"
  by (cases "m w") (simp add: await_def)

lemmas eval =
  ret_def raise_def bnd_eval seq_def catch_eval call_def send_def await_eval sleep_def logm_def
  lift_def suspend_def Let_def yield_literal drain_def

section \<open>The merge\<close>

text \<open>
  Claim C5, amended. The merge returns true exactly when the request comes back with
  status 201, and it fails exactly when the request itself throws (the platform refused
  the merge: a conflict, a missing permission). Every status that comes back and is not
  201 gives false: 204, and any other status as well, for which an error is logged. The
  request is made exactly once.
\<close>

theorem merge_outcomes:
  "fst (merge env ctx base head w) =
     (case repos_merge env (calls w) base head of
        Inl e \<Rightarrow> Inl e
      | Inr status \<Rightarrow> Inr (status = 201)) \<and>
   calls (snd (merge env ctx base head w)) =
     calls w @ [Merge base head (repos_merge env (calls w) base head)] \<and>
   (\<forall>status. repos_merge env (calls w) base head = Inr status \<and> status \<noteq> 201 \<and> status \<noteq> 204 \<longrightarrow>
      LogError (''Unknown return status ('' @ show_nat status @
        ''). Assuming we don't need to kick CI.'') \<in> set (logs (snd (merge env ctx base head w))))"
  by (cases "repos_merge env (calls w) base head") (auto simp: merge_def prog_defs)

text \<open>
  The four outcomes on concrete requests: status 201, status 204, a refused merge, and a
  status that is neither.
\<close>

theorem merge_outcomes_witness:
  "fst (merge (exampleEnv\<lparr>repos_merge := \<lambda>h b hd. Inr 201\<rparr>) exampleCtx
     ''merge/release_to_main'' ''main'' emptyWorld) = Inr True \<and>
   fst (merge exampleEnv exampleCtx ''merge/release_to_main'' ''main'' emptyWorld) = Inr False \<and>
   fst (merge (exampleEnv\<lparr>repos_merge := \<lambda>h b hd. Inl (RequestError 409 ''Merge conflict'')\<rparr>)
     exampleCtx ''merge/release_to_main'' ''main'' emptyWorld) =
     Inl (RequestError 409 ''Merge conflict'') \<and>
   LogError ''Unknown return status (205). Assuming we don't need to kick CI.'' \<in>
     set (logs (snd (merge (exampleEnv\<lparr>repos_merge := \<lambda>h b hd. Inr 205\<rparr>) exampleCtx
       ''merge/release_to_main'' ''main'' emptyWorld)))"
  using
    merge_outcomes [of "exampleEnv\<lparr>repos_merge := \<lambda>h b hd. Inr 201\<rparr>" exampleCtx
      "''merge/release_to_main''" "''main''" emptyWorld]
    merge_outcomes [of exampleEnv exampleCtx "''merge/release_to_main''" "''main''" emptyWorld]
    merge_outcomes [of "exampleEnv\<lparr>repos_merge := \<lambda>h b hd. Inl (RequestError 409 ''Merge conflict'')\<rparr>"
      exampleCtx "''merge/release_to_main''" "''main''" emptyWorld]
    merge_outcomes [of "exampleEnv\<lparr>repos_merge := \<lambda>h b hd. Inr 205\<rparr>" exampleCtx
      "''merge/release_to_main''" "''main''" emptyWorld]
  by (simp add: merge_def eval scenario_defs)

text \<open>
  The claim as stated fails on a status that is neither 201 nor 204: the merge returns
  false there and throws nothing.
\<close>

theorem merge_unknown_status_counterexample:
  "repos_merge (exampleEnv\<lparr>repos_merge := \<lambda>h b hd. Inr 202\<rparr>) (calls emptyWorld)
     ''merge/release_to_main'' ''main'' = Inr 202 \<and>
   fst (merge (exampleEnv\<lparr>repos_merge := \<lambda>h b hd. Inr 202\<rparr>) exampleCtx
     ''merge/release_to_main'' ''main'' emptyWorld) = Inr False"
  by (simp add: merge_def prog_defs exampleEnv_def emptyWorld_def)

section \<open>Looking a branch up\<close>

text \<open>
  Claim C10. Whatever the lookup of the branch throws, \<open>getBranch\<close> throws the same
  error, whose message names the branch and nothing of the cause.
\<close>

theorem getBranch_failure:
  "repos_getBranch env (calls w) branch = Inl e \<Longrightarrow>
   fst (getBranch env ctx branch w) = Inl (Error (''Could not find target branch: '' @ branch))"
  by (simp add: getBranch_def prog_defs)

text \<open>A branch that is missing and a branch that may not be read give the same error.\<close>

theorem getBranch_failure_witness:
  "fst (getBranch
      (exampleEnv\<lparr>repos_getBranch := \<lambda>h b. Inl (RequestError 404 ''Branch not found'')\<rparr>)
      exampleCtx ''main'' emptyWorld)
     = Inl (Error ''Could not find target branch: main'') \<and>
   fst (getBranch
      (exampleEnv\<lparr>repos_getBranch := \<lambda>h b. Inl (RequestError 403 ''Forbidden'')\<rparr>)
      exampleCtx ''main'' emptyWorld)
     = Inl (Error ''Could not find target branch: main'')"
  using
    getBranch_failure [of
      "exampleEnv\<lparr>repos_getBranch := \<lambda>h b. Inl (RequestError 404 ''Branch not found'')\<rparr>"
      emptyWorld "''main''" "RequestError 404 ''Branch not found''" exampleCtx]
    getBranch_failure [of
      "exampleEnv\<lparr>repos_getBranch := \<lambda>h b. Inl (RequestError 403 ''Forbidden'')\<rparr>"
      emptyWorld "''main''" "RequestError 403 ''Forbidden''" exampleCtx]
  by (simp add: exampleEnv_def)

section \<open>A push to the target branch\<close>

text \<open>
  Claim C6. Without an intermediate branch \<open>handlePushToTargetBranch\<close> returns nothing
  and makes no request at all. With one, when the listing of the open pull requests has
  no entry whose head is the intermediate branch and whose base is the pushed branch, it
  returns nothing and the listing is its only request: no merge is attempted.
\<close>

theorem handlePushToTargetBranch_noop:
  "(\<not> useIntermediateBranch ctx \<longrightarrow>
      fst (handlePushToTargetBranch env ctx sourceBr w) = Inr None \<and>
      calls (snd (handlePushToTargetBranch env ctx sourceBr w)) = calls w) \<and>
   (useIntermediateBranch ctx \<and>
    pulls_list env (calls w) (pushedBranch ctx)
      (intermediateBranchName sourceBr (pushedBranch ctx)) = Inr pulls \<and>
    existingPRsOf (intermediateBranchName sourceBr (pushedBranch ctx)) (pushedBranch ctx) pulls = []
    \<longrightarrow>
      fst (handlePushToTargetBranch env ctx sourceBr w) = Inr None \<and>
      calls (snd (handlePushToTargetBranch env ctx sourceBr w)) =
        calls w @ [ListPulls (pushedBranch ctx)
                     (intermediateBranchName sourceBr (pushedBranch ctx)) (Inr pulls)])"
  by (simp add: handlePushToTargetBranch_def prog_defs)

theorem handlePushToTargetBranch_noop_witness:
  "fst (handlePushToTargetBranch exampleEnv
          (exampleCtx\<lparr>pushedBranch := ''main'', useIntermediateBranch := False\<rparr>) ''release''
          emptyWorld) = Inr None \<and>
   calls (snd (handlePushToTargetBranch exampleEnv
          (exampleCtx\<lparr>pushedBranch := ''main'', useIntermediateBranch := False\<rparr>) ''release''
          emptyWorld)) = [] \<and>
   fst (handlePushToTargetBranch (exampleEnv\<lparr>pulls_list := \<lambda>h b hd. Inr [otherPR]\<rparr>)
          (exampleCtx\<lparr>pushedBranch := ''main''\<rparr>) ''release'' emptyWorld) = Inr None \<and>
   calls (snd (handlePushToTargetBranch (exampleEnv\<lparr>pulls_list := \<lambda>h b hd. Inr [otherPR]\<rparr>)
          (exampleCtx\<lparr>pushedBranch := ''main''\<rparr>) ''release'' emptyWorld)) =
     [ListPulls ''main'' ''merge/release_to_main'' (Inr [otherPR])]"
  using
    handlePushToTargetBranch_noop [of
      "exampleCtx\<lparr>pushedBranch := ''main'', useIntermediateBranch := False\<rparr>"
      exampleEnv "''release''" emptyWorld "[]"]
    handlePushToTargetBranch_noop [of
      "exampleCtx\<lparr>pushedBranch := ''main''\<rparr>"
      "exampleEnv\<lparr>pulls_list := \<lambda>h b hd. Inr [otherPR]\<rparr>" "''release''" emptyWorld "[otherPR]"]
  by (simp add: scenario_defs existingPRsOf_def intermediateBranchName_def)

section \<open>The kick\<close>

text \<open>
  Claim C1 fails on the code. With one and the same client for inspection and for pull
  requests (no personal access token), and a merge that creates a merge commit, both
  flows close and reopen the pull request: \<open>kickCI\<close> logs that it skips the kick and
  goes on.
\<close>

theorem kick_with_same_credentials:
  "actionsOctokit (exampleCtx\<lparr>prOctokit := ActionsOctokit\<rparr>) =
     prOctokit (exampleCtx\<lparr>prOctokit := ActionsOctokit\<rparr>) \<and>
   calls (snd (handlePushToSourceBranch kickEnv (exampleCtx\<lparr>prOctokit := ActionsOctokit\<rparr>)
     ''main'' emptyWorld)) =
     [GetBranch ''main'' (Inr ''c0ffee''),
      GetBranch ''release'' (Inr ''c0ffee''),
      GetBranch ''merge/release_to_main'' (Inr ''c0ffee''),
      Merge ''merge/release_to_main'' ''release'' (Inr 201),
      Merge ''merge/release_to_main'' ''main'' (Inr 201),
      ListPulls ''main'' ''merge/release_to_main'' (Inr [openPR]),
      UpdatePull ActionsOctokit 7 Closed (Inr ()),
      UpdatePull ActionsOctokit 7 Open (Inr ())] \<and>
   calls (snd (handlePushToTargetBranch kickEnv
     (exampleCtx\<lparr>pushedBranch := ''main'', prOctokit := ActionsOctokit\<rparr>) ''release'' emptyWorld)) =
     [ListPulls ''main'' ''merge/release_to_main'' (Inr [openPR]),
      Merge ''merge/release_to_main'' ''main'' (Inr 201),
      UpdatePull ActionsOctokit 7 Closed (Inr ()),
      UpdatePull ActionsOctokit 7 Open (Inr ())] \<and>
   Debug ''Actions Octokit is the same as PR Octokit. Skipping CI kick.'' \<in>
     set (logs (snd (handlePushToTargetBranch kickEnv
       (exampleCtx\<lparr>pushedBranch := ''main'', prOctokit := ActionsOctokit\<rparr>) ''release'' emptyWorld)))"
  by (simp add: flow_defs scenario_defs eval)

text \<open>
  Claim C2 fails on the code. With two different clients, a merge of the pushed branch
  that creates a merge commit and a merge of the target branch that finds nothing to
  merge, the flow returns nothing and does not kick the pull request: the second merge
  overwrites \<^verbatim>\<open>needsKick\<close>. And with one and the same client and merges that create
  merge commits, it returns an update.
\<close>

theorem needsKick_overwritten:
  "prOctokit exampleCtx \<noteq> actionsOctokit exampleCtx \<and>
   fst (handlePushToSourceBranch sourceOnlyEnv exampleCtx ''main'' emptyWorld) = Inr None \<and>
   calls (snd (handlePushToSourceBranch sourceOnlyEnv exampleCtx ''main'' emptyWorld)) =
     [GetBranch ''main'' (Inr ''c0ffee''),
      GetBranch ''release'' (Inr ''c0ffee''),
      GetBranch ''merge/release_to_main'' (Inr ''c0ffee''),
      Merge ''merge/release_to_main'' ''release'' (Inr 201),
      Merge ''merge/release_to_main'' ''main'' (Inr 204),
      ListPulls ''main'' ''merge/release_to_main'' (Inr [openPR])] \<and>
   fst (handlePushToSourceBranch kickEnv (exampleCtx\<lparr>prOctokit := ActionsOctokit\<rparr>)
     ''main'' emptyWorld) =
     Inr (Some \<lparr>sourceBranch = ''release'', targetBranch = ''main'',
       headBranch = ''merge/release_to_main'', baseBranch = ''main'',
       url = ''https://example.test/pull/7''\<rparr>)"
  by (simp add: flow_defs scenario_defs eval)

section \<open>Tasks are never lost\<close>

lemma set_take_drop:
  assumes "i < length ts"
  shows "set ts = insert (ts ! i) (set (take i ts @ drop (Suc i) ts))"
proof -
  have "ts = take i ts @ ts ! i # drop (Suc i) ts"
    using assms by (rule id_take_nth_drop)
  then have "set ts = set (take i ts @ ts ! i # drop (Suc i) ts)"
    by simp
  then show ?thesis
    by simp
qed

lemma resume_kept:
  "t \<in> set ts \<Longrightarrow> t \<in> set (snd (resume is ts)) \<or> set (resumed t) \<subseteq> set (fst (resume is ts))"
proof (induction "is" arbitrary: ts)
  case Nil
  then show ?case by simp
next
  case (Cons i "is")
  show ?case
  proof (cases "i < length ts")
    case False
    with Cons show ?thesis by simp
  next
    case True
    let ?ts' = "take i ts @ drop (Suc i) ts"
    from Cons.prems set_take_drop [OF True] have "t = ts ! i \<or> t \<in> set ?ts'"
      by auto
    then show ?thesis
    proof
      assume "t = ts ! i"
      with True show ?thesis
        by (simp split: prod.splits)
    next
      assume "t \<in> set ?ts'"
      from Cons.IH [OF this] True show ?thesis
        by (auto split: prod.splits)
    qed
  qed
qed

lemma keptI:
  assumes "logs w' = logs w @ l"
    and "\<And>t. t \<in> set (pending w) \<Longrightarrow> t \<in> set (pending w') \<or> set (resumed t) \<subseteq> set l"
  shows "kept w w'"
  unfolding kept_def list_all_iff using assms by blast

lemma keptE:
  assumes "kept w w'"
  obtains l where "logs w' = logs w @ l"
    and "\<forall>t \<in> set (pending w). t \<in> set (pending w') \<or> set (resumed t) \<subseteq> set l"
  using assms unfolding kept_def list_all_iff by blast

lemma kept_refl: "kept w w"
  by (rule keptI [of _ _ "[]"]) simp_all

lemma kept_trans:
  assumes "kept w w1" and "kept w1 w2"
  shows "kept w w2"
proof -
  obtain l1 where 1: "logs w1 = logs w @ l1"
    "\<forall>t \<in> set (pending w). t \<in> set (pending w1) \<or> set (resumed t) \<subseteq> set l1"
    using assms(1) by (rule keptE)
  obtain l2 where 2: "logs w2 = logs w1 @ l2"
    "\<forall>t \<in> set (pending w1). t \<in> set (pending w2) \<or> set (resumed t) \<subseteq> set l2"
    using assms(2) by (rule keptE)
  show ?thesis
  proof (rule keptI [of _ _ "l1 @ l2"])
    show "logs w2 = logs w @ l1 @ l2"
      using 1(1) 2(1) by simp
    fix t assume "t \<in> set (pending w)"
    with 1(2) 2(2) show "t \<in> set (pending w2) \<or> set (resumed t) \<subseteq> set (l1 @ l2)"
      by fastforce
  qed
qed

lemma yield_alt:
  "yield w =
     w\<lparr>logs := logs w @ fst (resume (arrivals w 0) (pending w)),
       pending := snd (resume (arrivals w 0) (pending w)),
       arrivals := \<lambda>n. arrivals w (Suc n)\<rparr>"
  by (simp add: yield_def case_prod_beta)

lemma kept_yield: "kept w (yield w)"
proof (rule keptI [of _ _ "fst (resume (arrivals w 0) (pending w))"])
  show "logs (yield w) = logs w @ fst (resume (arrivals w 0) (pending w))"
    by (simp add: yield_alt)
  fix t assume "t \<in> set (pending w)"
  from resume_kept [OF this, of "arrivals w 0"]
  show "t \<in> set (pending (yield w)) \<or> set (resumed t) \<subseteq> set (fst (resume (arrivals w 0) (pending w)))"
    by (simp add: yield_alt)
qed

lemma kept_drain:
  "\<exists>l. logs (drain w) = logs w @ l \<and> (\<forall>t \<in> set (pending w). set (resumed t) \<subseteq> set l)"
proof -
  obtain l where l: "logs (yield w) = logs w @ l"
    "\<forall>t \<in> set (pending w). t \<in> set (pending (yield w)) \<or> set (resumed t) \<subseteq> set l"
    using kept_yield [of w] by (rule keptE)
  have "logs (drain w) = logs w @ (l @ concat (map resumed (pending (yield w))))"
    by (simp add: drain_def l(1))
  moreover have "\<forall>t \<in> set (pending w).
      set (resumed t) \<subseteq> set (l @ concat (map resumed (pending (yield w))))"
    using l(2) by fastforce
  ultimately show ?thesis by blast
qed

section \<open>Programs that only add exchanges and log lines\<close>

lemma emitsOnlyI:
  assumes "\<And>w. \<exists>new. calls (snd (m w)) = calls w @ new \<and> list_all P new"
    and "\<And>w. kept w (snd (m w))"
    and "\<And>w. failed (snd (m w)) = failed w"
    and "\<And>w. outputs (snd (m w)) = outputs w"
  shows "emitsOnly P m"
  using assms by (simp add: emitsOnly_def)

lemma emitsOnlyD:
  assumes "emitsOnly P m"
  obtains new where "calls (snd (m w)) = calls w @ new" "list_all P new"
    "kept w (snd (m w))" "failed (snd (m w)) = failed w" "outputs (snd (m w)) = outputs w"
  using assms unfolding emitsOnly_def by blast

lemma emitsOnly_same:
  assumes "\<And>w. snd (m w) = w"
  shows "emitsOnly P m"
proof (rule emitsOnlyI)
  fix w
  have "calls (snd (m w)) = calls w @ [] \<and> list_all P []"
    using assms by simp
  then show "\<exists>new. calls (snd (m w)) = calls w @ new \<and> list_all P new"
    by blast
  show "kept w (snd (m w))"
    using assms kept_refl by simp
qed (simp_all add: assms)

lemma emitsOnly_ret: "emitsOnly P (ret x)"
  by (rule emitsOnly_same) (simp add: ret_def)

lemma emitsOnly_raise: "emitsOnly P (raise e)"
  by (rule emitsOnly_same) (simp add: raise_def)

lemma emitsOnly_lift: "emitsOnly P (lift r)"
  by (rule emitsOnly_same) (simp add: lift_def)

lemma emitsOnly_logm: "emitsOnly P (logm l)"
proof (rule emitsOnlyI)
  fix w
  have "calls (snd (logm l w)) = calls w @ [] \<and> list_all P []"
    by (simp add: logm_def)
  then show "\<exists>new. calls (snd (logm l w)) = calls w @ new \<and> list_all P new"
    by blast
  show "kept w (snd (logm l w))"
    by (rule keptI [of _ _ "[l]"]) (simp_all add: logm_def)
qed (simp_all add: logm_def)

lemma emitsOnly_suspend: "emitsOnly P (suspend t)"
proof (rule emitsOnlyI)
  fix w
  have "calls (snd (suspend t w)) = calls w @ [] \<and> list_all P []"
    by (simp add: suspend_def)
  then show "\<exists>new. calls (snd (suspend t w)) = calls w @ new \<and> list_all P new"
    by blast
  show "kept w (snd (suspend t w))"
    by (rule keptI [of _ _ "[]"]) (simp_all add: suspend_def)
qed (simp_all add: suspend_def)

lemma emitsOnly_send:
  assumes "\<And>r. P (mk r)"
  shows "emitsOnly P (send a mk)"
proof (rule emitsOnlyI)
  fix w
  have "calls (snd (send a mk w)) = calls w @ [mk (a (calls w))] \<and> list_all P [mk (a (calls w))]"
    using assms by (simp add: send_def Let_def)
  then show "\<exists>new. calls (snd (send a mk w)) = calls w @ new \<and> list_all P new"
    by blast
  show "kept w (snd (send a mk w))"
    by (rule keptI [of _ _ "[]"]) (simp_all add: send_def Let_def)
qed (simp_all add: send_def Let_def)

lemma emitsOnly_await:
  assumes "emitsOnly P m"
  shows "emitsOnly P (await m)"
proof (rule emitsOnlyI)
  fix w
  obtain new where 1: "calls (snd (m w)) = calls w @ new" "list_all P new"
    "kept w (snd (m w))" "failed (snd (m w)) = failed w" "outputs (snd (m w)) = outputs w"
    using assms by (rule emitsOnlyD)
  have s: "snd (await m w) = yield (snd (m w))"
    by (cases "m w") (simp add: await_def)
  from 1(1,2) show "\<exists>new. calls (snd (await m w)) = calls w @ new \<and> list_all P new"
    unfolding s by auto
  show "kept w (snd (await m w))"
    unfolding s using 1(3) kept_yield by (rule kept_trans)
  show "failed (snd (await m w)) = failed w" "outputs (snd (await m w)) = outputs w"
    unfolding s using 1(4,5) by simp_all
qed

lemma emitsOnly_bnd:
  assumes m: "emitsOnly P m" and f: "\<And>x. emitsOnly P (f x)"
  shows "emitsOnly P (bnd m f)"
proof -
  have "(\<exists>new. calls (snd (bnd m f w)) = calls w @ new \<and> list_all P new) \<and>
        kept w (snd (bnd m f w)) \<and> failed (snd (bnd m f w)) = failed w \<and>
        outputs (snd (bnd m f w)) = outputs w" for w
  proof -
    obtain n1 where 1: "calls (snd (m w)) = calls w @ n1" "list_all P n1"
      "kept w (snd (m w))" "failed (snd (m w)) = failed w" "outputs (snd (m w)) = outputs w"
      using m by (rule emitsOnlyD)
    show ?thesis
    proof (cases "fst (m w)")
      case (Inl e)
      then have "snd (bnd m f w) = snd (m w)"
        by (cases "m w") (simp add: bnd_def)
      with 1 show ?thesis by auto
    next
      case (Inr x)
      let ?w1 = "snd (m w)"
      obtain n2 where 2: "calls (snd (f x ?w1)) = calls ?w1 @ n2" "list_all P n2"
        "kept ?w1 (snd (f x ?w1))" "failed (snd (f x ?w1)) = failed ?w1"
        "outputs (snd (f x ?w1)) = outputs ?w1"
        using f by (rule emitsOnlyD)
      from Inr have s: "snd (bnd m f w) = snd (f x ?w1)"
        by (cases "m w") (simp add: bnd_def)
      have "calls (snd (bnd m f w)) = calls w @ (n1 @ n2) \<and> list_all P (n1 @ n2)"
        unfolding s using 1 2 by simp
      moreover have "kept w (snd (bnd m f w))"
        unfolding s using 1(3) 2(3) by (rule kept_trans)
      ultimately show ?thesis
        unfolding s using 1 2 by auto
    qed
  qed
  then show ?thesis
    by (simp add: emitsOnly_def)
qed

lemma emitsOnly_seq: "emitsOnly P m \<Longrightarrow> emitsOnly P n \<Longrightarrow> emitsOnly P (seq m n)"
  unfolding seq_def by (rule emitsOnly_bnd)

lemma emitsOnly_catch:
  assumes m: "emitsOnly P m" and h: "\<And>e. emitsOnly P (h e)"
  shows "emitsOnly P (catch m h)"
proof -
  have "(\<exists>new. calls (snd (catch m h w)) = calls w @ new \<and> list_all P new) \<and>
        kept w (snd (catch m h w)) \<and> failed (snd (catch m h w)) = failed w \<and>
        outputs (snd (catch m h w)) = outputs w" for w
  proof -
    obtain n1 where 1: "calls (snd (m w)) = calls w @ n1" "list_all P n1"
      "kept w (snd (m w))" "failed (snd (m w)) = failed w" "outputs (snd (m w)) = outputs w"
      using m by (rule emitsOnlyD)
    show ?thesis
    proof (cases "fst (m w)")
      case (Inr x)
      then have "snd (catch m h w) = snd (m w)"
        by (cases "m w") (simp add: catch_def)
      with 1 show ?thesis by auto
    next
      case (Inl e)
      let ?w1 = "snd (m w)"
      obtain n2 where 2: "calls (snd (h e ?w1)) = calls ?w1 @ n2" "list_all P n2"
        "kept ?w1 (snd (h e ?w1))" "failed (snd (h e ?w1)) = failed ?w1"
        "outputs (snd (h e ?w1)) = outputs ?w1"
        using h by (rule emitsOnlyD)
      from Inl have s: "snd (catch m h w) = snd (h e ?w1)"
        by (cases "m w") (simp add: catch_def)
      have "calls (snd (catch m h w)) = calls w @ (n1 @ n2) \<and> list_all P (n1 @ n2)"
        unfolding s using 1 2 by simp
      moreover have "kept w (snd (catch m h w))"
        unfolding s using 1(3) 2(3) by (rule kept_trans)
      ultimately show ?thesis
        unfolding s using 1 2 by auto
    qed
  qed
  then show ?thesis
    by (simp add: emitsOnly_def)
qed

lemma emitsOnly_call:
  assumes "\<And>r. P (mk r)"
  shows "emitsOnly P (call a mk)"
  unfolding call_def
  by (intro emitsOnly_bnd emitsOnly_send emitsOnly_await emitsOnly_lift assms)

lemma emitsOnly_sleep: "emitsOnly P sleep"
  unfolding sleep_def by (intro emitsOnly_await emitsOnly_ret)

lemma emitsOnly_if:
  "(c \<Longrightarrow> emitsOnly P a) \<Longrightarrow> (\<not> c \<Longrightarrow> emitsOnly P b) \<Longrightarrow> emitsOnly P (if c then a else b)"
  by simp

lemma emitsOnly_case_prod:
  "(\<And>a b. emitsOnly P (f a b)) \<Longrightarrow> emitsOnly P (case p of (a, b) \<Rightarrow> f a b)"
  by (cases p) simp

lemma emitsOnly_case_list:
  "emitsOnly P a \<Longrightarrow> (\<And>x xs. emitsOnly P (f x xs)) \<Longrightarrow> emitsOnly P (case l of [] \<Rightarrow> a | x # xs \<Rightarrow> f x xs)"
  by (cases l) simp_all

lemmas emitsOnly_basic =
  emitsOnly_ret emitsOnly_raise emitsOnly_lift emitsOnly_logm emitsOnly_suspend emitsOnly_send
  emitsOnly_call emitsOnly_await emitsOnly_sleep emitsOnly_bnd
  emitsOnly_seq emitsOnly_catch emitsOnly_if emitsOnly_case_prod emitsOnly_case_list

lemma emitsOnly_warnAll: "emitsOnly P (warnAll ns)"
  by (induction ns) (simp_all add: emitsOnly_basic)

lemma emitsOnly_getBranch: "(\<And>b r. P (GetBranch b r)) \<Longrightarrow> emitsOnly P (getBranch env ctx branch)"
  unfolding getBranch_def by (intro emitsOnly_basic) simp

lemma emitsOnly_createBranch:
  "(\<And>b r. P (GetBranch b r)) \<Longrightarrow> (\<And>b s r. P (CreateRef b s r)) \<Longrightarrow>
   emitsOnly P (createBranch env ctx branch sha)"
  unfolding createBranch_def by (intro emitsOnly_basic) simp_all

lemma emitsOnly_merge: "(\<And>b h r. P (Merge b h r)) \<Longrightarrow> emitsOnly P (merge env ctx base head)"
  unfolding merge_def by (intro emitsOnly_basic) simp

lemma emitsOnly_kickCI: "(\<And>okit n st r. P (UpdatePull okit n st r)) \<Longrightarrow> emitsOnly P (kickCI env ctx n)"
  unfolding kickCI_def by (intro emitsOnly_basic) simp_all

lemma emitsOnly_comment:
  "(\<And>n b r. P (CreateComment n b r)) \<Longrightarrow> emitsOnly P (comment env ctx n ns)"
  unfolding comment_def Let_def by (intro emitsOnly_basic) simp_all

lemma emitsOnly_reportConflicts:
  "(\<And>n b r. P (CreateComment n b r)) \<Longrightarrow> (\<And>n ls r. P (AddLabels n ls r)) \<Longrightarrow>
   (\<And>n l r. P (RemoveLabel n l r)) \<Longrightarrow>
   emitsOnly P (reportConflicts env ctx pr s t i c)"
  unfolding reportConflicts_def applyLabel_def removeLabel_def comment_def Let_def
  by (intro emitsOnly_basic emitsOnly_warnAll) simp_all

lemmas emitsOnly_intros =
  emitsOnly_basic
  emitsOnly_warnAll emitsOnly_getBranch emitsOnly_createBranch emitsOnly_merge emitsOnly_kickCI
  emitsOnly_comment emitsOnly_reportConflicts


lemma steady_handlePushToTargetBranch: "emitsOnly (\<lambda>_. True) (handlePushToTargetBranch env ctx t)"
  unfolding handlePushToTargetBranch_def kickIfNeeded_def Let_def
  by (intro emitsOnly_intros TrueI)

lemma steady_handlePushToSourceBranch: "emitsOnly (\<lambda>_. True) (handlePushToSourceBranch env ctx t)"
  unfolding handlePushToSourceBranch_def updateIntermediateBranch_def createOrUpdatePR_def
    updateExistingPR_def createPR_def kickIfNeeded_def Let_def
  by (intro emitsOnly_intros TrueI)

lemma bnd_proj:
  "bnd m f w = (case fst (m w) of Inl e \<Rightarrow> (Inl e, snd (m w)) | Inr x \<Rightarrow> f x (snd (m w)))"
  by (cases "m w"; cases "fst (m w)") (auto simp: bnd_def)

lemma seq_proj:
  "seq m n w = (case fst (m w) of Inl e \<Rightarrow> (Inl e, snd (m w)) | Inr x \<Rightarrow> n (snd (m w)))"
  by (simp add: seq_def bnd_proj)

lemma catch_proj:
  "catch m h w = (case fst (m w) of Inl e \<Rightarrow> h e (snd (m w)) | Inr x \<Rightarrow> (Inr x, snd (m w)))"
  by (cases "m w"; cases "fst (m w)") (auto simp: catch_def)

lemma await_proj: "await m w = (fst (m w), yield (snd (m w)))"
  by (cases "m w") (simp add: await_def)

lemma warned_Nil [simp]: "warned [] nl"
  by (simp add: warned_def)

lemma warned_mono: "warned a la \<Longrightarrow> set la \<subseteq> set lb \<Longrightarrow> warned a lb"
  by (auto simp: warned_def list_all_iff split: option.splits)

lemma warned_app: "warned a nl \<Longrightarrow> warned b nl \<Longrightarrow> warned (a @ b) nl"
  by (simp add: warned_def)

lemma warnAll_run: "warnAll ns w = (Inr (), w\<lparr>logs := logs w @ map Warning ns\<rparr>)"
  by (induction ns arbitrary: w) (simp_all add: prog_defs)

lemma comment_run:
  "fst (comment env ctx n ns w) = Inr () \<and>
   calls (snd (comment env ctx n ns w)) =
     calls w @ commentStep n ns (issues_createComment env (calls w) n (commentReport ns)) \<and>
   (\<exists>l. logs (snd (comment env ctx n ns w)) = logs w @ l \<and>
        warned (commentStep n ns (issues_createComment env (calls w) n (commentReport ns))) l)"
proof (cases "ns = []")
  case True
  then show ?thesis
    by (simp add: comment_def commentStep_def prog_defs)
next
  case False
  then show ?thesis
    by (cases "issues_createComment env (calls w) n (commentReport ns)")
       (simp_all add: comment_def commentStep_def prog_defs warned_def yield_alt)
qed

lemma labelStep_task:
  assumes "x \<in> set (labelStep c label pr r)" and "thrownBy x = Some e"
  shows "\<exists>t \<in> set (labelTasks c label pr r). Warning (error_toString e) \<in> set (resumed t)"
  using assms by (auto simp: labelStep_def labelTasks_def split: if_splits sum.splits)

section \<open>Reporting conflicts\<close>

lemma applyLabel_run:
  "fst (applyLabel env ctx pr label w) = Inr () \<and>
   calls (snd (applyLabel env ctx pr label w)) =
     calls w @ labelStep True label pr (labelAnswer env (calls w) True label pr) \<and>
   pending (snd (applyLabel env ctx pr label w)) =
     pending w @ labelTasks True label pr (labelAnswer env (calls w) True label pr) \<and>
   (\<exists>l. logs (snd (applyLabel env ctx pr label w)) = logs w @ l)"
  by (simp add: applyLabel_def labelStep_def labelTasks_def labelAnswer_def prog_defs)

lemma removeLabel_run:
  "fst (removeLabel env ctx pr label w) = Inr () \<and>
   calls (snd (removeLabel env ctx pr label w)) =
     calls w @ labelStep False label pr (labelAnswer env (calls w) False label pr) \<and>
   pending (snd (removeLabel env ctx pr label w)) =
     pending w @ labelTasks False label pr (labelAnswer env (calls w) False label pr) \<and>
   (\<exists>l. logs (snd (removeLabel env ctx pr label w)) = logs w @ l)"
  by (simp add: removeLabel_def labelStep_def labelTasks_def labelAnswer_def prog_defs)

lemma side_run:
  "fst ((if c then seq (applyLabel env ctx pr label) (ret a)
         else seq (logm d) (seq (removeLabel env ctx pr label) (ret b))) w) =
     Inr (if c then a else b) \<and>
   calls (snd ((if c then seq (applyLabel env ctx pr label) (ret a)
         else seq (logm d) (seq (removeLabel env ctx pr label) (ret b))) w)) =
     calls w @ labelStep c label pr (labelAnswer env (calls w) c label pr) \<and>
   pending (snd ((if c then seq (applyLabel env ctx pr label) (ret a)
         else seq (logm d) (seq (removeLabel env ctx pr label) (ret b))) w)) =
     pending w @ labelTasks c label pr (labelAnswer env (calls w) c label pr) \<and>
   (\<exists>l. logs (snd ((if c then seq (applyLabel env ctx pr label) (ret a)
         else seq (logm d) (seq (removeLabel env ctx pr label) (ret b))) w)) = logs w @ l)"
  by (simp add: applyLabel_def removeLabel_def labelStep_def labelTasks_def labelAnswer_def prog_defs)

lemma reportConflicts_run:
  "fst (reportConflicts env ctx pr s t i c w) = Inr () \<and>
   calls (snd (reportConflicts env ctx pr s t i c w)) = calls w @ reportOf env (calls w) ctx pr c s t i \<and>
   (\<exists>nl. logs (snd (reportConflicts env ctx pr s t i c w)) = logs w @ nl \<and>
      warned (filter isCreateComment (reportOf env (calls w) ctx pr c s t i)) nl) \<and>
   (\<exists>nl. logs (drain (snd (reportConflicts env ctx pr s t i c w))) = logs w @ nl \<and>
      warned (reportOf env (calls w) ctx pr c s t i) nl)"
proof -
  let ?sc = "sourceConflict c" and ?tc = "targetConflict c"
  let ?sl = "sourceConflictLabel ctx" and ?tl = "targetConflictLabel ctx"
  let ?n1 = "if ?sc then [sourceNote s i] else []"
  let ?ns = "notesOf c s t i"
  let ?S1 = "if ?sc
          then seq (applyLabel env ctx pr ?sl) (ret [sourceNote s i])
          else seq (logm (Debug (''Encountered no '' @ s @ '' => '' @ i @ '' conflict'')))
               (seq (removeLabel env ctx pr ?sl) (ret []))"
  let ?S2 = "\<lambda>notes1. if ?tc
          then seq (applyLabel env ctx pr ?tl) (ret (notes1 @ [targetNote t i]))
          else seq (logm (Debug (''Encountered no '' @ t @ '' => '' @ i @ '' conflict'')))
               (seq (removeLabel env ctx pr ?tl) (ret notes1))"
  let ?r1 = "labelAnswer env (calls w) ?sc ?sl pr"
  let ?st1 = "labelStep ?sc ?sl pr ?r1"
  let ?w1 = "snd (?S1 w)"
  obtain l1 where s1: "fst (?S1 w) = Inr ?n1" "calls ?w1 = calls w @ ?st1"
    "pending ?w1 = pending w @ labelTasks ?sc ?sl pr ?r1" "logs ?w1 = logs w @ l1"
    using side_run [of ?sc env ctx pr ?sl "[sourceNote s i]" _ "[]" w] by blast
  let ?r2 = "labelAnswer env (calls w @ ?st1) ?tc ?tl pr"
  let ?st2 = "labelStep ?tc ?tl pr ?r2"
  let ?w2 = "snd (?S2 ?n1 ?w1)"
  obtain l2 where s2: "fst (?S2 ?n1 ?w1) = Inr (if ?tc then ?n1 @ [targetNote t i] else ?n1)"
    "calls ?w2 = calls ?w1 @ labelStep ?tc ?tl pr (labelAnswer env (calls ?w1) ?tc ?tl pr)"
    "pending ?w2 = pending ?w1 @ labelTasks ?tc ?tl pr (labelAnswer env (calls ?w1) ?tc ?tl pr)"
    "logs ?w2 = logs ?w1 @ l2"
    using side_run [of ?tc env ctx pr ?tl "?n1 @ [targetNote t i]" _ ?n1 ?w1] by blast
  have ns: "(if ?tc then ?n1 @ [targetNote t i] else ?n1) = ?ns"
    by (simp add: notesOf_def)
  have c2: "calls ?w2 = calls w @ ?st1 @ ?st2"
    using s1(2) s2(2) by simp
  have p2: "pending ?w2 = pending w @ labelTasks ?sc ?sl pr ?r1 @ labelTasks ?tc ?tl pr ?r2"
    using s1(2,3) s2(3) by simp
  have g2: "logs ?w2 = logs w @ l1 @ l2"
    using s1(4) s2(4) by simp
  let ?w3 = "?w2\<lparr>logs := logs ?w2 @ map Warning ?ns\<rparr>"
  let ?C = "comment env ctx (number pr) ?ns"
  let ?r3 = "issues_createComment env (calls w @ ?st1 @ ?st2) (number pr) (commentReport ?ns)"
  let ?st3 = "commentStep (number pr) ?ns ?r3"
  let ?w4 = "snd (?C ?w3)"
  obtain l4 where s4: "fst (?C ?w3) = Inr ()" "calls ?w4 = calls ?w3 @ ?st3"
    "logs ?w4 = logs ?w3 @ l4" "warned ?st3 l4"
    using comment_run [of env ctx "number pr" ?ns ?w3] c2 by auto
  let ?w5 = "yield ?w4"
  have run: "reportConflicts env ctx pr s t i c w = (Inr (), ?w5)"
    unfolding reportConflicts_def
    by (simp add: bnd_proj seq_proj await_proj s1(1) s2(1) ns warnAll_run s4(1))
  have rep: "reportOf env (calls w) ctx pr c s t i = ?st1 @ ?st2 @ ?st3"
    by (simp add: reportOf_def reportExchanges_def Let_def)
  have calls5: "calls ?w5 = calls w @ reportOf env (calls w) ctx pr c s t i"
    using s4(2) c2 by (simp add: rep)
  have k45: "kept ?w4 ?w5"
    by (rule kept_yield)
  obtain l5 where l5: "logs ?w5 = logs ?w4 @ l5"
    "\<forall>t \<in> set (pending ?w4). t \<in> set (pending ?w5) \<or> set (resumed t) \<subseteq> set l5"
    using k45 by (rule keptE)
  have logs5: "logs ?w5 = logs w @ (l1 @ l2 @ map Warning ?ns @ l4 @ l5)"
    using l5(1) s4(3) g2 by simp
  have com: "filter isCreateComment (reportOf env (calls w) ctx pr c s t i) = ?st3"
    by (simp add: rep labelStep_def commentStep_def)
  have w3: "warned ?st3 (l1 @ l2 @ map Warning ?ns @ l4 @ l5)"
    using s4(4) by (rule warned_mono) auto
  have "emitsOnly (\<lambda>_. True) ?C"
    by (rule emitsOnly_comment) simp
  then have k34: "kept ?w3 ?w4"
    by (rule emitsOnlyD)
  obtain l4' where l4': "logs ?w4 = logs ?w3 @ l4'"
    "\<forall>t \<in> set (pending ?w3). t \<in> set (pending ?w4) \<or> set (resumed t) \<subseteq> set l4'"
    using k34 by (rule keptE)
  have l44: "l4' = l4"
    using l4'(1) s4(3) by simp
  obtain l6 where l6: "logs (drain ?w5) = logs ?w5 @ l6"
    "\<forall>t \<in> set (pending ?w5). set (resumed t) \<subseteq> set l6"
    using kept_drain [of ?w5] by blast
  let ?all = "l1 @ l2 @ map Warning ?ns @ l4 @ l5 @ l6"
  have logs6: "logs (drain ?w5) = logs w @ ?all"
    using l6(1) logs5 by simp
  have owed: "set (resumed task) \<subseteq> set ?all"
    if "task \<in> set (labelTasks ?sc ?sl pr ?r1 @ labelTasks ?tc ?tl pr ?r2)" for task
  proof -
    from that p2 have "task \<in> set (pending ?w3)"
      by simp
    with l4'(2) l44 have "task \<in> set (pending ?w4) \<or> set (resumed task) \<subseteq> set l4"
      by blast
    with l5(2) l6(2) show ?thesis
      by fastforce
  qed
  have wl: "warned st ?all"
    if "st = ?st1 \<or> st = ?st2" for st
    unfolding warned_def list_all_iff
  proof
    fix x assume x: "x \<in> set st"
    show "case thrownBy x of None \<Rightarrow> True | Some e \<Rightarrow> Warning (error_toString e) \<in> set ?all"
    proof (cases "thrownBy x")
      case None
      then show ?thesis by simp
    next
      case (Some e)
      from that x Some obtain task where
        "task \<in> set (labelTasks ?sc ?sl pr ?r1 @ labelTasks ?tc ?tl pr ?r2)"
        "Warning (error_toString e) \<in> set (resumed task)"
        using labelStep_task [of x ?sc ?sl pr ?r1 e] labelStep_task [of x ?tc ?tl pr ?r2 e]
        by auto
      with owed Some show ?thesis
        by auto
    qed
  qed
  have w3': "warned ?st3 ?all"
    using s4(4) by (rule warned_mono) auto
  have wall: "warned (reportOf env (calls w) ctx pr c s t i) ?all"
    unfolding rep using wl w3' by (simp add: warned_app)
  from run calls5 logs5 com w3 logs6 wall show ?thesis
    by (simp only: fst_conv snd_conv) blast
qed



section \<open>The loops of the run\<close>

lemma extend_sel [simp]:
  "calls (extend w new nl) = calls w @ new"
  "logs (extend w new nl) = logs w @ nl"
  "failed (extend w new nl) = failed w"
  "outputs (extend w new nl) = outputs w"
  "pending (extend w new nl) = pending w"
  "arrivals (extend w new nl) = arrivals w"
  by (simp_all add: extend_def)

lemma extend_Nil [simp]: "extend w [] [] = w"
  by (simp add: extend_def)

lemma seq_logm: "seq (logm l) n w = n (extend w [] [l])"
  by (simp add: seq_def bnd_def logm_def extend_def)

lemma extend_logs [simp]: "extend (extend w [] la) [] lb = extend w [] (la @ lb)"
  by (simp add: extend_def)

lemma tryIteration_cases:
  "tryIteration h synced w =
     (case fst (h w) of
        Inr update \<Rightarrow>
          (Inr (case update of Some u \<Rightarrow> synced @ [u] | None \<Rightarrow> synced), yield (snd (h w)))
      | Inl err \<Rightarrow>
          (Inr synced,
           (yield (snd (h w)))\<lparr>logs := logs (yield (snd (h w))) @
                  (case err of RequestError st m \<Rightarrow> [LogError (''status: '' @ show_nat st)] | _ \<Rightarrow> []) @
                  [LogError (error_toString err)],
               failed := True\<rparr>))"
  by (cases "h w"; cases "fst (h w)")
     (auto simp: tryIteration_def prog_defs setFailed_def split: error.splits option.splits)

lemma tryIteration_run:
  assumes "emitsOnly (\<lambda>_. True) h"
  shows "fst (tryIteration h synced w) = Inr (synced @ updatesOf [fst (h w)]) \<and>
         failed (snd (tryIteration h synced w)) = (failed w \<or> isl (fst (h w))) \<and>
         outputs (snd (tryIteration h synced w)) = outputs w \<and>
         snd (tryIteration h synced w) = snd (tryIteration h [] w)"
proof -
  obtain new where "failed (snd (h w)) = failed w" "outputs (snd (h w)) = outputs w"
    using assms by (rule emitsOnlyD)
  then show ?thesis
    by (cases "fst (h w)")
       (auto simp: tryIteration_cases updatesOf_def split: option.splits)
qed

lemma forEachBranch_run:
  assumes "\<And>b. emitsOnly (\<lambda>_. True) (handler b)"
  shows "fst (forEachBranch handler bs synced w) = Inr (synced @ updatesOf (outcomesOf handler bs w)) \<and>
         failed (snd (forEachBranch handler bs synced w)) =
           (failed w \<or> list_ex isl (outcomesOf handler bs w)) \<and>
         outputs (snd (forEachBranch handler bs synced w)) = outputs w"
proof (induction bs arbitrary: synced w)
  case Nil
  show ?case by (simp add: ret_def updatesOf_def)
next
  case (Cons b bs)
  let ?it = "tryIteration (handler b) synced w"
  have it: "fst ?it = Inr (synced @ updatesOf [fst (handler b w)])"
    "failed (snd ?it) = (failed w \<or> isl (fst (handler b w)))"
    "outputs (snd ?it) = outputs w"
    "snd ?it = snd (tryIteration (handler b) [] w)"
    using tryIteration_run [OF assms, of b synced w] by blast+
  have step: "forEachBranch handler (b # bs) synced w =
      forEachBranch handler bs (synced @ updatesOf [fst (handler b w)]) (snd ?it)"
    using it(1) by (cases ?it) (simp add: bnd_def)
  show ?case
    unfolding step
    using Cons.IH [of "synced @ updatesOf [fst (handler b w)]" "snd ?it"] it
    by (auto simp: updatesOf_def)
qed

lemma length_outcomesOf: "length (outcomesOf handler bs w) = length bs"
  by (induction bs arbitrary: w) simp_all

lemma onPushToSource_block:
  "\<exists>l. onPushToSource env ctx branches synced w =
      forEachBranch (handlePushToSourceBranch env ctx) (targetsOf env ctx branches) synced
        (extend w [] l)"
proof (cases "minimatch env (pushedBranch ctx) (sourceBranchPattern ctx)")
  case True
  then have "onPushToSource env ctx branches synced w =
      forEachBranch (handlePushToSourceBranch env ctx) (targetsOf env ctx branches) synced
        (extend w [] [Debug (matchedDebug ''source'' (pushedBranch ctx)
                    ''sourceBranchPattern'' (sourceBranchPattern ctx)),
           Debug (''Will open/update sync PRs targeting: '' @
             join '','' (filter (\<lambda>b. minimatch env b (targetBranchPattern ctx)) branches))])"
    by (simp add: onPushToSource_def targetsOf_def Let_def seq_logm)
  then show ?thesis by blast
next
  case False
  then have "onPushToSource env ctx branches synced w =
      forEachBranch (handlePushToSourceBranch env ctx) (targetsOf env ctx branches) synced
        (extend w [] [])"
    by (simp add: onPushToSource_def targetsOf_def)
  then show ?thesis by blast
qed

lemma onPushToTarget_block:
  "\<exists>l. onPushToTarget env ctx branches synced w =
      forEachBranch (handlePushToTargetBranch env ctx) (sourcesOf env ctx branches) synced
        (extend w [] l)"
proof (cases "minimatch env (pushedBranch ctx) (targetBranchPattern ctx)")
  case True
  then have "onPushToTarget env ctx branches synced w =
      forEachBranch (handlePushToTargetBranch env ctx) (sourcesOf env ctx branches) synced
        (extend w [] [Debug (matchedDebug ''target'' (pushedBranch ctx)
                    ''targetBranchPattern'' (targetBranchPattern ctx)),
           Debug (''Will update sync PRs with sources: '' @
             join '','' (filter (\<lambda>b. minimatch env b (sourceBranchPattern ctx)) branches))])"
    by (simp add: onPushToTarget_def sourcesOf_def Let_def seq_logm)
  then show ?thesis by blast
next
  case False
  then have "onPushToTarget env ctx branches synced w =
      forEachBranch (handlePushToTargetBranch env ctx) (sourcesOf env ctx branches) synced
        (extend w [] [])"
    by (simp add: onPushToTarget_def sourcesOf_def)
  then show ?thesis by blast
qed

lemma syncBranches_run:
  assumes "repos_listBranches env (calls w) = Inr branches"
  shows "\<exists>l1 l2 w1 w2.
     w1 = extend (yield (w\<lparr>calls := calls w @ [ListBranches (Inr branches)]\<rparr>)) [] l1 \<and>
     w2 = extend (snd (forEachBranch (handlePushToSourceBranch env ctx)
                         (targetsOf env ctx branches) [] w1)) [] l2 \<and>
     fst (syncBranches env ctx w) = Inr () \<and>
     failed (snd (syncBranches env ctx w)) =
       (failed w \<or>
        list_ex isl (outcomesOf (handlePushToSourceBranch env ctx) (targetsOf env ctx branches) w1) \<or>
        list_ex isl (outcomesOf (handlePushToTargetBranch env ctx) (sourcesOf env ctx branches) w2)) \<and>
     outputs (snd (syncBranches env ctx w)) =
       outputs w @
       [(''syncedPRs'',
         updatesOf (outcomesOf (handlePushToSourceBranch env ctx) (targetsOf env ctx branches) w1) @
         updatesOf (outcomesOf (handlePushToTargetBranch env ctx) (sourcesOf env ctx branches) w2))]"
proof -
  let ?Hs = "handlePushToSourceBranch env ctx" and ?Ht = "handlePushToTargetBranch env ctx"
  let ?T = "targetsOf env ctx branches" and ?S = "sourcesOf env ctx branches"
  let ?w0 = "yield (w\<lparr>calls := calls w @ [ListBranches (Inr branches)]\<rparr>)"
  have list: "call (\<lambda>h. repos_listBranches env h) ListBranches w = (Inr branches, ?w0)"
    using assms by (simp add: prog_defs)
  obtain l1 where b1: "onPushToSource env ctx branches [] ?w0 = forEachBranch ?Hs ?T [] (extend ?w0 [] l1)"
    using onPushToSource_block by blast
  let ?w1 = "extend ?w0 [] l1"
  let ?o1 = "outcomesOf ?Hs ?T ?w1"
  have f1: "fst (forEachBranch ?Hs ?T [] ?w1) = Inr (updatesOf ?o1)"
    "failed (snd (forEachBranch ?Hs ?T [] ?w1)) = (failed w \<or> list_ex isl ?o1)"
    "outputs (snd (forEachBranch ?Hs ?T [] ?w1)) = outputs w"
    using forEachBranch_run [of ?Hs ?T "[]" ?w1, OF steady_handlePushToSourceBranch] by simp_all
  let ?w1' = "snd (forEachBranch ?Hs ?T [] ?w1)"
  obtain l2 where b2: "onPushToTarget env ctx branches (updatesOf ?o1) ?w1' =
      forEachBranch ?Ht ?S (updatesOf ?o1) (extend ?w1' [] l2)"
    using onPushToTarget_block by blast
  let ?w2 = "extend ?w1' [] l2"
  let ?o2 = "outcomesOf ?Ht ?S ?w2"
  have f2: "fst (forEachBranch ?Ht ?S (updatesOf ?o1) ?w2) = Inr (updatesOf ?o1 @ updatesOf ?o2)"
    "failed (snd (forEachBranch ?Ht ?S (updatesOf ?o1) ?w2)) = (failed w \<or> list_ex isl ?o1 \<or> list_ex isl ?o2)"
    "outputs (snd (forEachBranch ?Ht ?S (updatesOf ?o1) ?w2)) = outputs w"
    using forEachBranch_run [of ?Ht ?S "updatesOf ?o1" ?w2, OF steady_handlePushToTargetBranch] f1
    by simp_all
  have run: "syncBranches env ctx w =
      seq (setOutput ''syncedPRs'' (updatesOf ?o1 @ updatesOf ?o2)) (logm (Info ''Done''))
        (snd (forEachBranch ?Ht ?S (updatesOf ?o1) ?w2))"
    unfolding syncBranches_def
    by (simp only: bnd_proj list fst_conv snd_conv sum.case b1 f1(1) b2 f2(1))
  have "fst (syncBranches env ctx w) = Inr () \<and>
     failed (snd (syncBranches env ctx w)) = (failed w \<or> list_ex isl ?o1 \<or> list_ex isl ?o2) \<and>
     outputs (snd (syncBranches env ctx w)) =
       outputs w @ [(''syncedPRs'', updatesOf ?o1 @ updatesOf ?o2)]"
    unfolding run using f2(2,3) by (simp add: seq_def bnd_def setOutput_def logm_def)
  then show ?thesis
    by blast
qed

text \<open>
  Claim C7. Once the branches are listed, the run goes through the targets, when the
  pushed branch matches the source pattern, and then through the sources, when it
  matches the target pattern. Every iteration starts in the world that the iteration
  before it left, whatever that iteration returned or threw, so that there is an outcome
  for every branch of the two loops. The run itself returns. It is marked failed exactly
  when it was already or an iteration threw. It sets one output, \<^verbatim>\<open>syncedPRs\<close>,
  to the updates that the iterations of the first loop returned, in their order,
  followed by those of the second loop. \<open>w1\<close> and \<open>w2\<close> are the worlds in which
  the two loops start: \<open>l1\<close> and \<open>l2\<close> are the debug lines that are logged before
  each.
\<close>

theorem iterations_isolated:
  assumes "repos_listBranches env (calls w) = Inr branches"
  shows "\<exists>l1 l2 w1 w2.
     w1 = extend (yield (w\<lparr>calls := calls w @ [ListBranches (Inr branches)]\<rparr>)) [] l1 \<and>
     w2 = extend (snd (forEachBranch (handlePushToSourceBranch env ctx)
                         (targetsOf env ctx branches) [] w1)) [] l2 \<and>
     length (outcomesOf (handlePushToSourceBranch env ctx) (targetsOf env ctx branches) w1) =
       length (targetsOf env ctx branches) \<and>
     length (outcomesOf (handlePushToTargetBranch env ctx) (sourcesOf env ctx branches) w2) =
       length (sourcesOf env ctx branches) \<and>
     fst (syncBranches env ctx w) = Inr () \<and>
     failed (snd (syncBranches env ctx w)) =
       (failed w \<or>
        list_ex isl (outcomesOf (handlePushToSourceBranch env ctx) (targetsOf env ctx branches) w1) \<or>
        list_ex isl (outcomesOf (handlePushToTargetBranch env ctx) (sourcesOf env ctx branches) w2)) \<and>
     outputs (snd (syncBranches env ctx w)) =
       outputs w @
       [(''syncedPRs'',
         updatesOf (outcomesOf (handlePushToSourceBranch env ctx) (targetsOf env ctx branches) w1) @
         updatesOf (outcomesOf (handlePushToTargetBranch env ctx) (sourcesOf env ctx branches) w2))]"
  using syncBranches_run [OF assms, of ctx] by (simp only: length_outcomesOf simp_thms)

text \<open>
  A push to a branch that is a source and a target. In the first loop the first target
  cannot be looked up and the second gets a new pull request; in the second loop the
  pull request of the first source is kicked and the listing for the second source
  fails. The run is failed and its output has the two updates.
\<close>

theorem iterations_isolated_witness:
  "repos_listBranches bothSidesEnv (calls emptyWorld) = Inr [''dev'', ''main'', ''release''] \<and>
   targetsOf bothSidesEnv bothSidesCtx [''dev'', ''main'', ''release''] = [''main'', ''release''] \<and>
   sourcesOf bothSidesEnv bothSidesCtx [''dev'', ''main'', ''release''] = [''dev'', ''release''] \<and>
   outcomesOf (handlePushToSourceBranch bothSidesEnv bothSidesCtx) [''main'', ''release'']
     (yield (emptyWorld\<lparr>calls := [ListBranches (Inr [''dev'', ''main'', ''release''])]\<rparr>)) =
     [Inl (Error ''Could not find target branch: main''),
      Inr (Some \<lparr>sourceBranch = ''release'', targetBranch = ''release'',
        headBranch = ''merge/release_to_release'', baseBranch = ''release'',
        url = ''https://example.test/pull/1''\<rparr>)] \<and>
   outcomesOf (handlePushToTargetBranch bothSidesEnv bothSidesCtx) [''dev'', ''release'']
     (snd (forEachBranch (handlePushToSourceBranch bothSidesEnv bothSidesCtx)
        [''main'', ''release''] []
        (yield (emptyWorld\<lparr>calls := [ListBranches (Inr [''dev'', ''main'', ''release''])]\<rparr>)))) =
     [Inr (Some \<lparr>sourceBranch = ''dev'', targetBranch = ''release'',
        headBranch = ''merge/dev_to_release'', baseBranch = ''release'',
        url = ''https://example.test/pull/9''\<rparr>),
      Inl (RequestError 503 ''Service unavailable'')] \<and>
   fst (syncBranches bothSidesEnv bothSidesCtx emptyWorld) = Inr () \<and>
   failed (snd (syncBranches bothSidesEnv bothSidesCtx emptyWorld)) \<and>
   outputs (snd (syncBranches bothSidesEnv bothSidesCtx emptyWorld)) =
     [(''syncedPRs'',
       [\<lparr>sourceBranch = ''release'', targetBranch = ''release'',
         headBranch = ''merge/release_to_release'', baseBranch = ''release'',
         url = ''https://example.test/pull/1''\<rparr>,
        \<lparr>sourceBranch = ''dev'', targetBranch = ''release'',
         headBranch = ''merge/dev_to_release'', baseBranch = ''release'',
         url = ''https://example.test/pull/9''\<rparr>])]"
proof -
  have 1: "repos_listBranches bothSidesEnv (calls emptyWorld) = Inr [''dev'', ''main'', ''release'']"
    by (simp add: scenario_defs)
  have 2: "targetsOf bothSidesEnv bothSidesCtx [''dev'', ''main'', ''release''] = [''main'', ''release'']"
    "sourcesOf bothSidesEnv bothSidesCtx [''dev'', ''main'', ''release''] = [''dev'', ''release'']"
    by (simp_all add: scenario_defs targetsOf_def sourcesOf_def)
  have 3: "outcomesOf (handlePushToSourceBranch bothSidesEnv bothSidesCtx) [''main'', ''release'']
     (yield (emptyWorld\<lparr>calls := [ListBranches (Inr [''dev'', ''main'', ''release''])]\<rparr>)) =
     [Inl (Error ''Could not find target branch: main''),
      Inr (Some \<lparr>sourceBranch = ''release'', targetBranch = ''release'',
        headBranch = ''merge/release_to_release'', baseBranch = ''release'',
        url = ''https://example.test/pull/1''\<rparr>)]"
    by (simp add: flow_defs loop_defs scenario_defs eval)
  have 4: "outcomesOf (handlePushToTargetBranch bothSidesEnv bothSidesCtx) [''dev'', ''release'']
     (snd (forEachBranch (handlePushToSourceBranch bothSidesEnv bothSidesCtx)
        [''main'', ''release''] []
        (yield (emptyWorld\<lparr>calls := [ListBranches (Inr [''dev'', ''main'', ''release''])]\<rparr>)))) =
     [Inr (Some \<lparr>sourceBranch = ''dev'', targetBranch = ''release'',
        headBranch = ''merge/dev_to_release'', baseBranch = ''release'',
        url = ''https://example.test/pull/9''\<rparr>),
      Inl (RequestError 503 ''Service unavailable'')]"
    by (simp add: flow_defs loop_defs scenario_defs eval)
  have 5: "fst (syncBranches bothSidesEnv bothSidesCtx emptyWorld) = Inr ()"
    "failed (snd (syncBranches bothSidesEnv bothSidesCtx emptyWorld))"
    "outputs (snd (syncBranches bothSidesEnv bothSidesCtx emptyWorld)) =
     [(''syncedPRs'',
       [\<lparr>sourceBranch = ''release'', targetBranch = ''release'',
         headBranch = ''merge/release_to_release'', baseBranch = ''release'',
         url = ''https://example.test/pull/1''\<rparr>,
        \<lparr>sourceBranch = ''dev'', targetBranch = ''release'',
         headBranch = ''merge/dev_to_release'', baseBranch = ''release'',
         url = ''https://example.test/pull/9''\<rparr>])]"
    using iterations_isolated [OF 1, of bothSidesCtx]
    by (simp_all add: flow_defs loop_defs scenario_defs eval matchedDebug_def
        JSON_stringify_string_def JSON_escape_def)
  from 1 2 3 4 5 show ?thesis
    by blast
qed

section \<open>The pushed branch\<close>













section \<open>The exchanges of the push-to-source flow\<close>

lemmas proj = bnd_proj seq_proj catch_proj await_proj ret_def raise_def lift_def logm_def

lemma call_fst [simp]: "fst (call a mk w) = a (calls w)"
  by (simp add: prog_defs)

lemma call_calls [simp]: "calls (snd (call a mk w)) = calls w @ [mk (a (calls w))]"
  by (simp add: prog_defs)

lemma getBranch_fst:
  "fst (getBranch env ctx b w) =
     (case repos_getBranch env (calls w) b of
        Inl e \<Rightarrow> Inl (Error (''Could not find target branch: '' @ b))
      | Inr s \<Rightarrow> Inr s)"
  by (simp add: getBranch_def proj split: sum.splits)

lemma getBranch_calls:
  "calls (snd (getBranch env ctx b w)) = calls w @ [GetBranch b (repos_getBranch env (calls w) b)]"
  by (simp add: getBranch_def proj split: sum.splits)








lemma if_logm_fst: "fst ((if b then logm m else ret ()) w) = Inr ()"
  by (simp add: logm_def ret_def)

lemma if_logm_calls: "calls (snd ((if b then logm m else ret ()) w)) = calls w"
  by (simp add: logm_def ret_def)



lemma createPR_run:
  assumes "Mustache_render env (prTitleTemplate ctx)
             \<lparr>source_pattern = sourceBranchPattern ctx, original_source = pushedBranch ctx,
              source = head, target = t, use_intermediate_branch = useIntermediateBranch ctx\<rparr> =
           Inr title"
    and "Mustache_render env (prBodyTemplate ctx)
             \<lparr>source_pattern = sourceBranchPattern ctx, original_source = pushedBranch ctx,
              source = head, target = t, use_intermediate_branch = useIntermediateBranch ctx\<rparr> =
           Inr body"
  shows "calls (snd (createPR env ctx head t c w)) =
      calls w @
      CreatePull (prOctokit ctx) title body head t
        (pulls_create env (calls w) (prOctokit ctx) title body head t) #
      (case pulls_create env (calls w) (prOctokit ctx) title body head t of
         Inl e \<Rightarrow> []
       | Inr newPr \<Rightarrow>
           reportOf env
             (calls w @ [CreatePull (prOctokit ctx) title body head t (Inr newPr)])
             ctx newPr c (pushedBranch ctx) t head)"
proof (cases "pulls_create env (calls w) (prOctokit ctx) title body head t")
  case (Inl e)
  then show ?thesis
    using assms by (simp add: createPR_def Let_def proj)
next
  case (Inr newPr)
  let ?w1 = "snd (logm (Debug ''Create new pull request'') w)"
  let ?C = "call (\<lambda>h. pulls_create env h (prOctokit ctx) title body head t)
              (CreatePull (prOctokit ctx) title body head t)"
  let ?w2 = "snd (?C ?w1)"
  let ?w3 = "snd (logm (Info (''Successfully created PR: '' @ html_url newPr))
      (snd (logm (Debug (''Created new pull request: '' @ JSON_stringify_pull env newPr)) ?w2)))"
  have c3: "calls ?w3 = calls w @ [CreatePull (prOctokit ctx) title body head t (Inr newPr)]"
    using Inr by (simp add: logm_def)
  let ?R = "await (reportConflicts env ctx newPr (pushedBranch ctx) t head c)"
  have r: "fst (?R ?w3) = Inr ()"
    "calls (snd (?R ?w3)) = calls ?w3 @ reportOf env (calls ?w3) ctx newPr c (pushedBranch ctx) t head"
    using reportConflicts_run [of env ctx newPr "pushedBranch ctx" t head c ?w3]
    by (simp_all add: await_proj)
  have f: "fst (?C ?w1) = Inr newPr"
    using Inr by (simp add: logm_def)
  have "snd (createPR env ctx head t c w) = snd (?R ?w3)"
    unfolding createPR_def Let_def
    by (simp only: bnd_proj seq_proj lift_def assms fst_conv snd_conv sum.case f r(1))
       (simp add: logm_def ret_def)
  then show ?thesis
    using r(2) c3 Inr by simp
qed


lemma createOrUpdatePR_new:
  assumes "pulls_list env (calls w) t head = Inr pulls"
    and "existingPRsOf head t pulls = []"
    and "Mustache_render env (prTitleTemplate ctx)
             \<lparr>source_pattern = sourceBranchPattern ctx, original_source = pushedBranch ctx,
              source = head, target = t, use_intermediate_branch = useIntermediateBranch ctx\<rparr> =
           Inr title"
    and "Mustache_render env (prBodyTemplate ctx)
             \<lparr>source_pattern = sourceBranchPattern ctx, original_source = pushedBranch ctx,
              source = head, target = t, use_intermediate_branch = useIntermediateBranch ctx\<rparr> =
           Inr body"
    and "y = pulls_create env (calls w @ [ListPulls t head (Inr pulls)]) (prOctokit ctx)
               title body head t"
  shows "calls (snd (createOrUpdatePR env ctx head t nk c w)) =
      calls w @ [ListPulls t head (Inr pulls), CreatePull (prOctokit ctx) title body head t y] @
      (case y of
         Inl e \<Rightarrow> []
       | Inr newPr \<Rightarrow>
           reportOf env
             (calls w @ [ListPulls t head (Inr pulls),
                         CreatePull (prOctokit ctx) title body head t (Inr newPr)])
             ctx newPr c (pushedBranch ctx) t head)"
proof -
  let ?L = "call (\<lambda>h. pulls_list env h t head) (ListPulls t head)"
  let ?w1 = "snd (?L w)"
  let ?W = "if 1 < length (existingPRsOf head t pulls)
          then logm (Warning (''Found multiple PRs from '' @ head @ '' to '' @ t @
                 ''. That's impossible... Merging the first one.''))
          else ret ()"
  let ?w2 = "snd (?W ?w1)"
  have l: "fst (?L w) = Inr pulls" "calls ?w1 = calls w @ [ListPulls t head (Inr pulls)]"
    using assms(1) by simp_all
  have w: "calls ?w2 = calls ?w1"
    by (rule if_logm_calls)
  have run: "createOrUpdatePR env ctx head t nk c w = createPR env ctx head t c ?w2"
    unfolding createOrUpdatePR_def
    by (simp only: bnd_proj seq_proj l(1) if_logm_fst sum.case assms(2) list.case)
  show ?thesis
    unfolding run createPR_run [OF assms(3,4)] w l(2) assms(5)
    by (simp split: sum.splits)
qed


lemma handlePushToSourceBranch_direct:
  assumes "\<not> useIntermediateBranch ctx"
    and "repos_getBranch env (calls w) t = Inr sha0"
  shows "\<exists>w1. calls w1 = calls w @ [GetBranch t (Inr sha0)] \<and>
     handlePushToSourceBranch env ctx t w =
       createOrUpdatePR env ctx (pushedBranch ctx) t False
         \<lparr>sourceConflict = False, targetConflict = False\<rparr> w1"
proof -
  let ?p = "pushedBranch ctx"
  let ?w0 = "snd (logm (Info (''Opening/Updating sync PR: '' @ ?p @ '' => '' @ t)) w)"
  let ?G = "await (getBranch env ctx t)"
  let ?w1 = "snd (?G ?w0)"
  have g: "fst (?G ?w0) = Inr sha0" "calls ?w1 = calls w @ [GetBranch t (Inr sha0)]"
    using assms(2) by (simp_all add: await_proj getBranch_fst getBranch_calls logm_def)
  have "handlePushToSourceBranch env ctx t w =
       createOrUpdatePR env ctx ?p t False \<lparr>sourceConflict = False, targetConflict = False\<rparr> ?w1"
    unfolding handlePushToSourceBranch_def Let_def
    using assms(1)
    by (simp only: if_False bnd_proj seq_proj g(1) sum.case prod.case ret_def fst_conv snd_conv)
       (simp add: logm_def)
  with g(2) show ?thesis
    by blast
qed







section \<open>A pushed branch that matches both patterns\<close>

lemma seq_logm_in_logs:
  assumes "emitsOnly P n"
  shows "l \<in> set (logs (snd (seq (logm l) n w)))"
proof -
  have "kept (extend w [] [l]) (snd (n (extend w [] [l])))"
    using assms by (rule emitsOnlyD)
  then obtain nl where "logs (snd (n (extend w [] [l]))) = logs (extend w [] [l]) @ nl"
    by (rule keptE)
  then show ?thesis
    by (simp add: seq_logm)
qed

lemma handlePushToSourceBranch_first_line:
  "Info (''Opening/Updating sync PR: '' @ pushedBranch ctx @ '' => '' @ t) \<in>
     set (logs (snd (handlePushToSourceBranch env ctx t w)))"
  unfolding handlePushToSourceBranch_def updateIntermediateBranch_def createOrUpdatePR_def
    updateExistingPR_def createPR_def kickIfNeeded_def Let_def
  by (rule seq_logm_in_logs [where P = "\<lambda>_. True"]) (intro emitsOnly_intros TrueI)

lemma steady_logs:
  assumes "emitsOnly P m"
  shows "set (logs w) \<subseteq> set (logs (snd (m w)))"
proof -
  have "kept w (snd (m w))"
    using assms by (rule emitsOnlyD)
  then obtain nl where "logs (snd (m w)) = logs w @ nl"
    by (rule keptE)
  then show ?thesis by simp
qed

lemma tryIteration_logs:
  "set (logs (snd (h w))) \<subseteq> set (logs (snd (tryIteration h synced w)))"
  by (cases "fst (h w)") (auto simp: tryIteration_cases yield_alt)

lemma forEachBranch_logs_mono:
  assumes "\<And>b. emitsOnly (\<lambda>_. True) (handler b)"
  shows "set (logs w) \<subseteq> set (logs (snd (forEachBranch handler bs synced w)))"
proof (induction bs arbitrary: synced w)
  case Nil
  show ?case by (simp add: ret_def)
next
  case (Cons b bs)
  let ?it = "tryIteration (handler b) synced w"
  obtain s1 where s1: "fst ?it = Inr s1"
    using tryIteration_run [of "handler b", OF assms, of synced w] by blast
  have step: "forEachBranch handler (b # bs) synced w = forEachBranch handler bs s1 (snd ?it)"
    using s1 by (cases ?it) (simp add: bnd_def)
  have "set (logs w) \<subseteq> set (logs (snd (handler b w)))"
    using assms by (rule steady_logs)
  also have "\<dots> \<subseteq> set (logs (snd ?it))"
    by (rule tryIteration_logs)
  also have "\<dots> \<subseteq> set (logs (snd (forEachBranch handler bs s1 (snd ?it))))"
    by (rule Cons.IH)
  finally show ?case
    unfolding step .
qed

lemma forEachBranch_first_lines:
  assumes steady: "\<And>b. emitsOnly (\<lambda>_. True) (handler b)"
    and line: "\<And>b w. line b \<in> set (logs (snd (handler b w)))"
    and "b \<in> set bs"
  shows "line b \<in> set (logs (snd (forEachBranch handler bs synced w)))"
  using assms(3)
proof (induction bs arbitrary: synced w)
  case Nil
  then show ?case by simp
next
  case (Cons a bs)
  let ?it = "tryIteration (handler a) synced w"
  obtain s1 where s1: "fst ?it = Inr s1"
    using tryIteration_run [of "handler a", OF steady, of synced w] by blast
  have step: "forEachBranch handler (a # bs) synced w = forEachBranch handler bs s1 (snd ?it)"
    using s1 by (cases ?it) (simp add: bnd_def)
  show ?case
  proof (cases "b = a")
    case True
    have "line b \<in> set (logs (snd (handler a w)))"
      unfolding True by (rule line)
    then have "line b \<in> set (logs (snd ?it))"
      using tryIteration_logs by blast
    then show ?thesis
      unfolding step using forEachBranch_logs_mono [of handler, OF steady] by blast
  next
    case False
    with Cons.prems have "b \<in> set bs" by simp
    then show ?thesis
      unfolding step by (rule Cons.IH)
  qed
qed

lemma onPushToSource_loop:
  assumes "minimatch env (pushedBranch ctx) (sourceBranchPattern ctx)"
  shows "\<exists>l. onPushToSource env ctx branches synced w =
      forEachBranch (handlePushToSourceBranch env ctx)
        (filter (\<lambda>b. minimatch env b (targetBranchPattern ctx)) branches) synced (extend w [] l)"
  using assms
  apply (simp add: onPushToSource_def Let_def seq_logm)
  apply (rule exI)
  apply (rule refl)
  done

lemma direct_self_PR:
  assumes "\<not> useIntermediateBranch ctx"
    and "repos_getBranch env (calls w) (pushedBranch ctx) = Inr sha"
    and "pulls_list env (calls w @ [GetBranch (pushedBranch ctx) (Inr sha)])
           (pushedBranch ctx) (pushedBranch ctx) = Inr pulls"
    and "existingPRsOf (pushedBranch ctx) (pushedBranch ctx) pulls = []"
    and "Mustache_render env (prTitleTemplate ctx)
           \<lparr>source_pattern = sourceBranchPattern ctx, original_source = pushedBranch ctx,
            source = pushedBranch ctx, target = pushedBranch ctx,
            use_intermediate_branch = useIntermediateBranch ctx\<rparr> = Inr title"
    and "Mustache_render env (prBodyTemplate ctx)
           \<lparr>source_pattern = sourceBranchPattern ctx, original_source = pushedBranch ctx,
            source = pushedBranch ctx, target = pushedBranch ctx,
            use_intermediate_branch = useIntermediateBranch ctx\<rparr> = Inr body"
  shows "\<exists>y post. calls (snd (handlePushToSourceBranch env ctx (pushedBranch ctx) w)) =
      calls w @ [GetBranch (pushedBranch ctx) (Inr sha),
                 ListPulls (pushedBranch ctx) (pushedBranch ctx) (Inr pulls),
                 CreatePull (prOctokit ctx) title body (pushedBranch ctx) (pushedBranch ctx) y] @ post"
proof -
  let ?p = "pushedBranch ctx"
  let ?c = "\<lparr>sourceConflict = False, targetConflict = False\<rparr>"
  obtain w1 where w1: "calls w1 = calls w @ [GetBranch ?p (Inr sha)]"
    and h: "handlePushToSourceBranch env ctx ?p w = createOrUpdatePR env ctx ?p ?p False ?c w1"
    using handlePushToSourceBranch_direct [OF assms(1,2)] by blast
  have x: "pulls_list env (calls w1) ?p ?p = Inr pulls"
    using assms(3) w1 by simp
  show ?thesis
    unfolding h createOrUpdatePR_new [OF x assms(4,5,6) refl] w1
    by simp
qed


text \<open>
  Claim C8. When the pushed branch matches both patterns and is among the branches of
  the repository, it is among the targets computed for it: the block of the run for a
  push to a source is the loop of \<open>handlePushToSourceBranch\<close> over these targets, and
  the log has the first line of the iteration whose target is the pushed branch itself.
  Without an intermediate branch, when that branch is found, no pull request from it to
  itself is open and the templates render, the flow asks for the creation of a pull
  request whose head and base are both the pushed branch.
\<close>

theorem pushed_branch_is_its_own_target:
  assumes "minimatch env (pushedBranch ctx) (sourceBranchPattern ctx)"
    and "minimatch env (pushedBranch ctx) (targetBranchPattern ctx)"
    and "pushedBranch ctx \<in> set branches"
  shows
    "pushedBranch ctx \<in> set (filter (\<lambda>b. minimatch env b (targetBranchPattern ctx)) branches) \<and>
     (\<exists>l. onPushToSource env ctx branches syncedPRs w =
        forEachBranch (handlePushToSourceBranch env ctx)
          (filter (\<lambda>b. minimatch env b (targetBranchPattern ctx)) branches) syncedPRs
          (extend w [] l)) \<and>
     Info (''Opening/Updating sync PR: '' @ pushedBranch ctx @ '' => '' @ pushedBranch ctx) \<in>
       set (logs (snd (onPushToSource env ctx branches syncedPRs w))) \<and>
     (\<forall>w1 sha pulls title body.
        \<not> useIntermediateBranch ctx \<and>
        repos_getBranch env (calls w1) (pushedBranch ctx) = Inr sha \<and>
        pulls_list env (calls w1 @ [GetBranch (pushedBranch ctx) (Inr sha)])
          (pushedBranch ctx) (pushedBranch ctx) = Inr pulls \<and>
        existingPRsOf (pushedBranch ctx) (pushedBranch ctx) pulls = [] \<and>
        Mustache_render env (prTitleTemplate ctx)
          \<lparr>source_pattern = sourceBranchPattern ctx, original_source = pushedBranch ctx,
           source = pushedBranch ctx, target = pushedBranch ctx,
           use_intermediate_branch = useIntermediateBranch ctx\<rparr> = Inr title \<and>
        Mustache_render env (prBodyTemplate ctx)
          \<lparr>source_pattern = sourceBranchPattern ctx, original_source = pushedBranch ctx,
           source = pushedBranch ctx, target = pushedBranch ctx,
           use_intermediate_branch = useIntermediateBranch ctx\<rparr> = Inr body
        \<longrightarrow>
        (\<exists>y post. calls (snd (handlePushToSourceBranch env ctx (pushedBranch ctx) w1)) =
           calls w1 @ [GetBranch (pushedBranch ctx) (Inr sha),
                       ListPulls (pushedBranch ctx) (pushedBranch ctx) (Inr pulls),
                       CreatePull (prOctokit ctx) title body (pushedBranch ctx) (pushedBranch ctx) y] @
           post))"
proof (intro conjI allI impI)
  let ?targets = "filter (\<lambda>b. minimatch env b (targetBranchPattern ctx)) branches"
  show target: "pushedBranch ctx \<in> set ?targets"
    using assms(2,3) by simp
  obtain l where loop: "onPushToSource env ctx branches syncedPRs w =
      forEachBranch (handlePushToSourceBranch env ctx) ?targets syncedPRs (extend w [] l)"
    using onPushToSource_loop [OF assms(1)] by blast
  then show "\<exists>l. onPushToSource env ctx branches syncedPRs w =
      forEachBranch (handlePushToSourceBranch env ctx) ?targets syncedPRs (extend w [] l)"
    by blast
  show "Info (''Opening/Updating sync PR: '' @ pushedBranch ctx @ '' => '' @ pushedBranch ctx) \<in>
       set (logs (snd (onPushToSource env ctx branches syncedPRs w)))"
    unfolding loop
    by (rule forEachBranch_first_lines
          [of "handlePushToSourceBranch env ctx"
              "\<lambda>b. Info (''Opening/Updating sync PR: '' @ pushedBranch ctx @ '' => '' @ b)",
           OF steady_handlePushToSourceBranch handlePushToSourceBranch_first_line target])
next
  fix w1 :: world and sha pulls title body
  assume "\<not> useIntermediateBranch ctx \<and>
        repos_getBranch env (calls w1) (pushedBranch ctx) = Inr sha \<and>
        pulls_list env (calls w1 @ [GetBranch (pushedBranch ctx) (Inr sha)])
          (pushedBranch ctx) (pushedBranch ctx) = Inr pulls \<and>
        existingPRsOf (pushedBranch ctx) (pushedBranch ctx) pulls = [] \<and>
        Mustache_render env (prTitleTemplate ctx)
          \<lparr>source_pattern = sourceBranchPattern ctx, original_source = pushedBranch ctx,
           source = pushedBranch ctx, target = pushedBranch ctx,
           use_intermediate_branch = useIntermediateBranch ctx\<rparr> = Inr title \<and>
        Mustache_render env (prBodyTemplate ctx)
          \<lparr>source_pattern = sourceBranchPattern ctx, original_source = pushedBranch ctx,
           source = pushedBranch ctx, target = pushedBranch ctx,
           use_intermediate_branch = useIntermediateBranch ctx\<rparr> = Inr body"
  then show "\<exists>y post. calls (snd (handlePushToSourceBranch env ctx (pushedBranch ctx) w1)) =
           calls w1 @ [GetBranch (pushedBranch ctx) (Inr sha),
                       ListPulls (pushedBranch ctx) (pushedBranch ctx) (Inr pulls),
                       CreatePull (prOctokit ctx) title body (pushedBranch ctx) (pushedBranch ctx) y] @
           post"
    using direct_self_PR [of ctx env w1 sha pulls title body] by blast
qed

text \<open>
  With the pattern \<^verbatim>\<open>*\<close> on both sides and a push to \<^verbatim>\<open>release\<close>, the
  second iteration asks for a pull request from \<^verbatim>\<open>release\<close> to
  \<^verbatim>\<open>release\<close>.
\<close>

theorem pushed_branch_is_its_own_target_witness:
  "minimatch selfTargetEnv (pushedBranch selfTargetCtx) (sourceBranchPattern selfTargetCtx) \<and>
   minimatch selfTargetEnv (pushedBranch selfTargetCtx) (targetBranchPattern selfTargetCtx) \<and>
   pushedBranch selfTargetCtx \<in> set [''main'', ''release''] \<and>
   filter (\<lambda>b. minimatch selfTargetEnv b (targetBranchPattern selfTargetCtx)) [''main'', ''release''] =
     [''main'', ''release''] \<and>
   Info ''Opening/Updating sync PR: release => release'' \<in>
     set (logs (snd (onPushToSource selfTargetEnv selfTargetCtx [''main'', ''release''] [] emptyWorld))) \<and>
   calls (snd (onPushToSource selfTargetEnv selfTargetCtx [''main'', ''release''] [] emptyWorld)) =
     [GetBranch ''main'' (Inr ''c0ffee''),
      ListPulls ''main'' ''release'' (Inr []),
      CreatePull (PATOctokit ''pat'') ''title'' ''body'' ''release'' ''main''
        (Inr \<lparr>number = 1, head_ref = ''release'', base_ref = ''main'',
               html_url = ''https://example.test/pull/1'', labels = []\<rparr>),
      GetBranch ''release'' (Inr ''c0ffee''),
      ListPulls ''release'' ''release'' (Inr []),
      CreatePull (PATOctokit ''pat'') ''title'' ''body'' ''release'' ''release''
        (Inr \<lparr>number = 1, head_ref = ''release'', base_ref = ''release'',
               html_url = ''https://example.test/pull/1'', labels = []\<rparr>)]"
proof -
  have 1: "minimatch selfTargetEnv (pushedBranch selfTargetCtx) (sourceBranchPattern selfTargetCtx)"
    and 2: "minimatch selfTargetEnv (pushedBranch selfTargetCtx) (targetBranchPattern selfTargetCtx)"
    and 3: "pushedBranch selfTargetCtx \<in> set [''main'', ''release'']"
    and 4: "filter (\<lambda>b. minimatch selfTargetEnv b (targetBranchPattern selfTargetCtx))
              [''main'', ''release''] = [''main'', ''release'']"
    by (simp_all add: scenario_defs)
  have 5: "pushedBranch selfTargetCtx = ''release''"
    by (simp add: scenario_defs)
  from pushed_branch_is_its_own_target [OF 1 2 3, of "[]" emptyWorld]
  have 6: "Info ''Opening/Updating sync PR: release => release'' \<in>
     set (logs (snd (onPushToSource selfTargetEnv selfTargetCtx [''main'', ''release''] [] emptyWorld)))"
    unfolding 5 by simp
  have 7: "calls (snd (onPushToSource selfTargetEnv selfTargetCtx [''main'', ''release''] [] emptyWorld)) =
     [GetBranch ''main'' (Inr ''c0ffee''),
      ListPulls ''main'' ''release'' (Inr []),
      CreatePull (PATOctokit ''pat'') ''title'' ''body'' ''release'' ''main''
        (Inr \<lparr>number = 1, head_ref = ''release'', base_ref = ''main'',
               html_url = ''https://example.test/pull/1'', labels = []\<rparr>),
      GetBranch ''release'' (Inr ''c0ffee''),
      ListPulls ''release'' ''release'' (Inr []),
      CreatePull (PATOctokit ''pat'') ''title'' ''body'' ''release'' ''release''
        (Inr \<lparr>number = 1, head_ref = ''release'', base_ref = ''release'',
               html_url = ''https://example.test/pull/1'', labels = []\<rparr>)]"
    by (simp add: flow_defs loop_defs scenario_defs eval)
  from 1 2 3 4 6 7 show ?thesis
    by blast
qed

end
